theory Spec2Isabelle
  imports Main
begin

section \<open>Python values, exceptions and the observable events\<close>

text \<open>
  The module \<^verbatim>\<open>azsql.py\<close> is one class, \<^verbatim>\<open>AzSql\<close>, whose methods talk to three
  collaborators: the identity provider (MSAL), the database driver (pyodbc) and the
  logger. The model is a shallow embedding in explicit state-passing style. The state is
  the list of calls made so far on the collaborators (the trace); what a collaborator
  answers is read from an environment record, so every theorem holds for every behaviour
  of the collaborators. A Python exception is the \<open>Inl\<close> branch of a sum.
\<close>

text \<open>A byte is a natural number below 256; a Python \<^verbatim>\<open>str\<close> is its list of code points.\<close>

type_synonym byte = nat
type_synonym pystr = "nat list"

text \<open>Connections and cursors are driver objects; the model knows them by identity only.\<close>

datatype conn = Conn nat
datatype cursor = Cursor nat

text \<open>
  The exceptions that occur. \<open>OperationalError\<close> is \<^verbatim>\<open>pyodbc.OperationalError\<close>, the only
  class \<^verbatim>\<open>create_cursor\<close> catches; \<open>DriverError\<close> stands for every other exception of the
  driver or of MSAL. The string is what \<^verbatim>\<open>str(e)\<close> gives.
\<close>

datatype exn =
    OperationalError string
  | DriverError string
  | TypeError string
  | AttributeError string
  | KeyError string
  | ValueError string
  | StructError string
  | UnicodeEncodeError string

fun exn_str :: "exn \<Rightarrow> string" where
  "exn_str (OperationalError m) = m"
| "exn_str (DriverError m) = m"
| "exn_str (TypeError m) = m"
| "exn_str (AttributeError m) = m"
| "exn_str (KeyError m) = m"
| "exn_str (ValueError m) = m"
| "exn_str (StructError m) = m"
| "exn_str (UnicodeEncodeError m) = m"

text \<open>
  The messages of the exceptions that Python raises on \<^verbatim>\<open>None\<close>: an attribute looked up on
  it, and an iteration over it.
\<close>

definition quoted :: "string \<Rightarrow> string" where
  "quoted s = [CHR 0x27] @ s @ [CHR 0x27]"

definition none_has_no_attribute :: "string \<Rightarrow> exn" where
  "none_has_no_attribute name =
     AttributeError (quoted ''NoneType'' @ '' object has no attribute '' @ quoted name)"

definition none_not_iterable :: exn where
  "none_not_iterable = TypeError (quoted ''NoneType'' @ '' object is not iterable'')"

text \<open>The values a caller can pass as \<^verbatim>\<open>data_values\<close>, and Python's truth test on them.\<close>

datatype pyval =
    PNone
  | PBool bool
  | PInt int
  | PStr string
  | PList "pyval list"
  | PTuple "pyval list"

fun truthy :: "pyval \<Rightarrow> bool" where
  "truthy PNone = False"
| "truthy (PBool b) = b"
| "truthy (PInt n) = (n \<noteq> 0)"
| "truthy (PStr s) = (s \<noteq> [])"
| "truthy (PList xs) = (xs \<noteq> [])"
| "truthy (PTuple xs) = (xs \<noteq> [])"

fun is_list :: "pyval \<Rightarrow> bool" where
  "is_list (PList xs) = True"
| "is_list v = False"

fun is_tuple :: "pyval \<Rightarrow> bool" where
  "is_tuple (PTuple xs) = True"
| "is_tuple v = False"

fun elements :: "pyval \<Rightarrow> pyval list" where
  "elements (PList xs) = xs"
| "elements (PTuple xs) = xs"
| "elements v = []"

type_synonym row = "pyval list"

text \<open>An entry of \<^verbatim>\<open>cursor.description\<close>; the code reads component 0, the column name.\<close>

datatype column = Column (col_name: string) (col_type: string)

text \<open>Host byte order, which \<^verbatim>\<open>struct.pack('=i', ...)\<close> follows.\<close>

datatype byteorder = LittleEndian | BigEndian

text \<open>Every call on a collaborator is recorded, in order, with its arguments.\<close>

datatype event =
    EvNewApp string string string
  | EvAcquireToken "string list"
  | EvConnect string int "byte list"
  | EvCursor conn
  | EvSleep int
  | EvLogWarning string
  | EvLogError string
  | EvPrint string
  | EvExecute cursor string
  | EvExecuteParams cursor string pyval
  | EvExecuteMany cursor string pyval
  | EvFetchAll cursor
  | EvDescription cursor
  | EvCommit conn
  | EvRollback conn
  | EvCloseCursor cursor
  | EvCloseConn conn

type_synonym trace = "event list"

text \<open>
  The environment: the module-level configuration read from \<^verbatim>\<open>os.environ\<close>, the host
  byte order, and the answer of each collaborator call. The identity provider is asked by
  the number of token requests made before; \<^verbatim>\<open>pyodbc.connect\<close> and \<^verbatim>\<open>conn.cursor()\<close> by the
  loop variable \<^verbatim>\<open>attempt\<close> of \<^verbatim>\<open>create_cursor\<close>; every other driver call happens at most
  once in a run of a method: the statement, the fetch, the read of \<^verbatim>\<open>cursor.description\<close>
  (\<open>None\<close> when the statement produced no result set), the commit, the rollback,
  \<^verbatim>\<open>cursor.close()\<close> and \<^verbatim>\<open>conn.close()\<close>. Each of them can raise.
\<close>

record env =
  TENANT_ID :: string
  CLIENT_ID :: string
  CLIENT_CREDENTIAL :: string
  host_byteorder :: byteorder
  new_app :: "exn option"
  acquire_token_for_client :: "nat \<Rightarrow> exn + (string \<times> pystr) list"
  connect :: "nat \<Rightarrow> exn + conn"
  new_cursor :: "nat \<Rightarrow> exn + cursor"
  execute :: "exn option"
  executemany :: "exn option"
  fetchall :: "exn + row list"
  description :: "column list option"
  commit :: "exn option"
  rollback :: "exn option"
  cursor_close :: "exn option"
  conn_close :: "exn option"

section \<open>Strings\<close>

text \<open>Python's \<^verbatim>\<open>sub in s\<close> on strings: \<open>sub\<close> occurs in \<open>s\<close> as a contiguous block.\<close>

fun str_contains :: "string \<Rightarrow> string \<Rightarrow> bool" where
  "str_contains sub [] = (sub = [])"
| "str_contains sub (c # cs) = (take (length sub) (c # cs) = sub \<or> str_contains sub cs)"

text \<open>Decimal formatting of an integer inside an f-string.\<close>

definition digit_char :: "nat \<Rightarrow> char" where
  "digit_char d = ''0123456789'' ! d"

fun str_nat :: "nat \<Rightarrow> string" where
  "str_nat n = (if n < 10 then [digit_char n] else str_nat (n div 10) @ [digit_char (n mod 10)])"

declare str_nat.simps [simp del]

definition str_int :: "int \<Rightarrow> string" where
  "str_int i = (if i < 0 then CHR ''-'' # str_nat (nat (- i)) else str_nat (nat i))"

section \<open>The token encoder (\<^verbatim>\<open>config_sql\<close>, lines 57 to 59)\<close>

text \<open>
  \<^verbatim>\<open>bytes(s, 'UTF-8')\<close>: one to four bytes per code point. A surrogate code point cannot
  be encoded: the encoder raises \<^verbatim>\<open>UnicodeEncodeError\<close> at the first one, and the message
  names the position and, for a lone surrogate, the character, for a run of surrogates
  the last position of the run.
\<close>

definition is_surrogate :: "nat \<Rightarrow> bool" where
  "is_surrogate c = (55296 \<le> c \<and> c < 57344)"

definition hex_digit :: "nat \<Rightarrow> char" where
  "hex_digit d = ''0123456789abcdef'' ! d"

definition hex4 :: "nat \<Rightarrow> string" where
  "hex4 c = [hex_digit (c div 4096 mod 16), hex_digit (c div 256 mod 16),
             hex_digit (c div 16 mod 16), hex_digit (c mod 16)]"

definition surrogate_error :: "nat \<Rightarrow> nat \<Rightarrow> nat \<Rightarrow> exn" where
  "surrogate_error pos c run =
     UnicodeEncodeError
       (quoted ''utf-8'' @ '' codec can'' @ [CHR 0x27] @ ''t encode ''
          @ (if run = 1 then
               ''character '' @ quoted ([CHR 0x5C] @ ''u'' @ hex4 c) @ '' in position ''
                 @ str_nat pos
             else ''characters in position '' @ str_nat pos @ ''-'' @ str_nat (pos + run - 1))
          @ '': surrogates not allowed'')"

definition utf8_char :: "nat \<Rightarrow> byte list" where
  "utf8_char c =
     (if c < 128 then [c]
      else if c < 2048 then [192 + c div 64, 128 + c mod 64]
      else if c < 65536 then [224 + c div 4096, 128 + c div 64 mod 64, 128 + c mod 64]
      else [240 + c div 262144, 128 + c div 4096 mod 64, 128 + c div 64 mod 64,
            128 + c mod 64])"

fun bytes_utf8_from :: "nat \<Rightarrow> pystr \<Rightarrow> exn + byte list" where
  "bytes_utf8_from pos [] = Inr []"
| "bytes_utf8_from pos (c # cs) =
     (if is_surrogate c then
        Inl (surrogate_error pos c (Suc (length (takeWhile is_surrogate cs))))
      else
        (case bytes_utf8_from (Suc pos) cs of
           Inl e \<Rightarrow> Inl e
         | Inr rest \<Rightarrow> Inr (utf8_char c @ rest)))"

definition bytes_utf8 :: "pystr \<Rightarrow> exn + byte list" where
  "bytes_utf8 s = bytes_utf8_from 0 s"

text \<open>
  \<^verbatim>\<open>b''.join(bytes({i}) + bytes(1) for i in tokenb)\<close>: \<^verbatim>\<open>bytes({i})\<close> is the one byte \<open>i\<close>
  (the bytes of the one-element set), \<^verbatim>\<open>bytes(1)\<close> is one zero byte.
\<close>

definition expand_token :: "byte list \<Rightarrow> byte list" where
  "expand_token tokenb = concat (map (\<lambda>i. [i] @ replicate 1 0) tokenb)"

text \<open>
  \<^verbatim>\<open>struct.pack('=i', n)\<close>: a signed 32-bit integer in two's complement, four bytes in the
  host's byte order; a value outside the signed 32-bit range raises \<^verbatim>\<open>struct.error\<close>.
\<close>

definition struct_range_error :: exn where
  "struct_range_error =
     StructError (quoted ''i'' @ '' format requires -2147483648 <= number <= 2147483647'')"

definition struct_pack_i :: "byteorder \<Rightarrow> int \<Rightarrow> exn + byte list" where
  "struct_pack_i bo n =
     (if n < - 2147483648 \<or> 2147483647 < n then Inl struct_range_error
      else
        let u = nat (n mod 4294967296);
            le = [u mod 256, u div 256 mod 256, u div 65536 mod 256, u div 16777216 mod 256]
        in Inr (case bo of LittleEndian \<Rightarrow> le | BigEndian \<Rightarrow> rev le))"

text \<open>Lines 57 to 59 together: from the token string to \<^verbatim>\<open>tokenstruct\<close>.\<close>

definition encode_token :: "byteorder \<Rightarrow> pystr \<Rightarrow> exn + byte list" where
  "encode_token bo access_token =
     (case bytes_utf8 access_token of
        Inl e \<Rightarrow> Inl e
      | Inr tokenb \<Rightarrow>
          let exptoken = expand_token tokenb in
          (case struct_pack_i bo (int (length exptoken)) of
             Inl e \<Rightarrow> Inl e
           | Inr hdr \<Rightarrow> Inr (hdr @ exptoken)))"

section \<open>\<^verbatim>\<open>config_sql\<close> (lines 45 to 67)\<close>

text \<open>The instance: \<^verbatim>\<open>self.server\<close> and \<^verbatim>\<open>self.database\<close>.\<close>

record azsql =
  server :: string
  database :: string

definition SQL_COPT_SS_ACCESS_TOKEN :: int where
  "SQL_COPT_SS_ACCESS_TOKEN = 1256"

definition conn_string :: "azsql \<Rightarrow> string" where
  "conn_string self =
     ''DRIVER={ODBC Driver 18 for SQL Server};'' @ (''SERVER='' @ server self @ '';'')
       @ (''DATABASE='' @ database self @ '';'') @ ''ENCRYPT=NO''"

text \<open>The number of token requests made so far.\<close>

fun is_acquire :: "event \<Rightarrow> bool" where
  "is_acquire (EvAcquireToken scopes) = True"
| "is_acquire ev = False"

definition token_requests :: "trace \<Rightarrow> nat" where
  "token_requests tr = length (filter is_acquire tr)"

text \<open>
  The body of the \<^verbatim>\<open>try\<close> (lines 51 to 65). \<^verbatim>\<open>token['access_token']\<close> raises
  \<^verbatim>\<open>KeyError\<close> when the answer of the identity provider has no such field.
\<close>

definition config_sql_try ::
  "env \<Rightarrow> azsql \<Rightarrow> trace \<Rightarrow> (exn + string \<times> byte list \<times> int) \<times> trace" where
  "config_sql_try env self tr =
     (let tr1 = tr @ [EvNewApp (CLIENT_ID env)
                        (''https://login.microsoftonline.com/'' @ TENANT_ID env)
                        (CLIENT_CREDENTIAL env)]
      in case new_app env of
           Some e \<Rightarrow> (Inl e, tr1)
         | None \<Rightarrow>
             let tr2 = tr1 @ [EvAcquireToken [''https://database.windows.net//.default'']]
             in (case acquire_token_for_client env (token_requests tr1) of
                   Inl e \<Rightarrow> (Inl e, tr2)
                 | Inr token \<Rightarrow>
                     (case map_of token ''access_token'' of
                        None \<Rightarrow> (Inl (KeyError (quoted ''access_token'')), tr2)
                      | Some access_token \<Rightarrow>
                          (case encode_token (host_byteorder env) access_token of
                             Inl e \<Rightarrow> (Inl e, tr2)
                           | Inr tokenstruct \<Rightarrow>
                               (Inr (conn_string self, tokenstruct, SQL_COPT_SS_ACCESS_TOKEN),
                                tr2)))))"

text \<open>
  The whole method: the handler (lines 66, 67) logs and falls off the end, so the method
  returns \<^verbatim>\<open>None\<close> and raises nothing.
\<close>

definition config_sql ::
  "env \<Rightarrow> azsql \<Rightarrow> trace \<Rightarrow> (string \<times> byte list \<times> int) option \<times> trace" where
  "config_sql env self tr =
     (case config_sql_try env self tr of
        (Inr t, tr1) \<Rightarrow> (Some t, tr1)
      | (Inl e, tr1) \<Rightarrow>
          (None, tr1 @ [EvLogError (''Error configuring SQL connection: '' @ exn_str e)]))"

section \<open>\<^verbatim>\<open>create_cursor\<close> (lines 71 to 93)\<close>

text \<open>\<^verbatim>\<open>time.sleep\<close> raises \<^verbatim>\<open>ValueError\<close> on a negative length.\<close>

definition time_sleep :: "int \<Rightarrow> trace \<Rightarrow> (exn + unit) \<times> trace" where
  "time_sleep secs tr =
     (if secs < 0 then (Inl (ValueError ''sleep length must be non-negative''), tr)
      else (Inr (), tr @ [EvSleep secs]))"

text \<open>The body of the \<^verbatim>\<open>try\<close> (lines 82 to 84): one connection attempt.\<close>

definition connect_attempt ::
  "env \<Rightarrow> string \<Rightarrow> byte list \<Rightarrow> int \<Rightarrow> nat \<Rightarrow> trace \<Rightarrow> (exn + conn \<times> cursor) \<times> trace" where
  "connect_attempt env connString tokenstruct key attempt tr =
     (let tr1 = tr @ [EvConnect connString key tokenstruct]
      in case connect env attempt of
           Inl e \<Rightarrow> (Inl e, tr1)
         | Inr conn \<Rightarrow>
             let tr2 = tr1 @ [EvCursor conn]
             in (case new_cursor env attempt of
                   Inl e \<Rightarrow> (Inl e, tr2)
                 | Inr cursor \<Rightarrow> (Inr (conn, cursor), tr2)))"

text \<open>\<^verbatim>\<open>except pyodbc.OperationalError as e\<close>: the one class the handler catches.\<close>

fun is_operational :: "exn \<Rightarrow> bool" where
  "is_operational (OperationalError m) = True"
| "is_operational e = False"

text \<open>
  The \<^verbatim>\<open>for\<close> loop (lines 80 to 91), from the value \<open>attempt\<close> of the loop variable with
  \<open>remaining\<close> iterations to go. \<open>Some\<close> is a \<^verbatim>\<open>return\<close> or a raise out of the loop,
  \<open>None\<close> is the loop running to its end.
\<close>

fun retry_loop ::
  "env \<Rightarrow> string \<Rightarrow> byte list \<Rightarrow> int \<Rightarrow> int \<Rightarrow> nat \<Rightarrow> nat \<Rightarrow> trace
     \<Rightarrow> (exn + conn \<times> cursor) option \<times> trace" where
  "retry_loop env connString tokenstruct key delay attempt 0 tr = (None, tr)"
| "retry_loop env connString tokenstruct key delay attempt (Suc remaining) tr =
     (case connect_attempt env connString tokenstruct key attempt tr of
        (Inr r, tr1) \<Rightarrow> (Some (Inr r), tr1)
      | (Inl e, tr1) \<Rightarrow>
          if is_operational e then
            if str_contains ''Login timeout expired'' (exn_str e) then
              (case time_sleep delay
                      (tr1 @ [EvLogWarning (''Attempt '' @ str_int (int attempt + 1)
                                @ '' failed, retrying in '' @ str_int delay @ '' seconds...'')]) of
                 (Inl e', tr2) \<Rightarrow> (Some (Inl e'), tr2)
               | (Inr u, tr2) \<Rightarrow>
                   retry_loop env connString tokenstruct key delay (Suc attempt) remaining tr2)
            else (Some (Inl e), tr1 @ [EvLogError (''Operational error: '' @ exn_str e)])
          else (Some (Inl e), tr1))"

text \<open>
  The whole method. Unpacking the \<^verbatim>\<open>None\<close> that \<^verbatim>\<open>config_sql\<close> returned after a failure
  raises \<^verbatim>\<open>TypeError\<close> (line 78). \<^verbatim>\<open>range(max_retries)\<close> is empty for a negative bound.
\<close>

definition create_cursor ::
  "env \<Rightarrow> azsql \<Rightarrow> int \<Rightarrow> int \<Rightarrow> trace \<Rightarrow> (exn + conn \<times> cursor) \<times> trace" where
  "create_cursor env self max_retries delay tr =
     (case config_sql env self tr of
        (None, tr0) \<Rightarrow> (Inl (TypeError ''cannot unpack non-iterable NoneType object''), tr0)
      | (Some (connString, tokenstruct, key), tr0) \<Rightarrow>
          (case retry_loop env connString tokenstruct key delay 0 (nat max_retries) tr0 of
             (Some r, tr1) \<Rightarrow> (r, tr1)
           | (None, tr1) \<Rightarrow>
               (Inl (OperationalError ''Maximum retry attempts reached''),
                tr1 @ [EvLogError ''Maximum retry attempts reached''])))"

section \<open>The statements the two executors share\<close>

definition outcome :: "exn option \<Rightarrow> exn + unit" where
  "outcome r = (case r of Some e \<Rightarrow> Inl e | None \<Rightarrow> Inr ())"

text \<open>
  Lines 107 to 113, and again lines 153 to 159: the dispatch on \<^verbatim>\<open>data_values\<close>.
  \<^verbatim>\<open>all(...)\<close> runs over the elements of the list.
\<close>

definition run_query ::
  "env \<Rightarrow> cursor \<Rightarrow> string \<Rightarrow> pyval \<Rightarrow> trace \<Rightarrow> (exn + unit) \<times> trace" where
  "run_query env cursor query data_values tr =
     (if truthy data_values then
        if is_list data_values \<and> list_all is_tuple (elements data_values) then
          (outcome (executemany env), tr @ [EvExecuteMany cursor query data_values])
        else (outcome (execute env), tr @ [EvExecuteParams cursor query data_values])
      else (outcome (execute env), tr @ [EvExecute cursor query]))"

text \<open>
  Lines 116, 117, and again lines 163, 164: \<^verbatim>\<open>fetchall()\<close>, then the column names out of
  \<^verbatim>\<open>cursor.description\<close>, which is \<^verbatim>\<open>None\<close> when the statement produced no result set.
\<close>

definition fetch_result ::
  "env \<Rightarrow> cursor \<Rightarrow> trace \<Rightarrow> (exn + row list \<times> string list) \<times> trace" where
  "fetch_result env cursor tr =
     (let tr1 = tr @ [EvFetchAll cursor]
      in case fetchall env of
           Inl e \<Rightarrow> (Inl e, tr1)
         | Inr result \<Rightarrow>
             let tr2 = tr1 @ [EvDescription cursor]
             in (case description env of
                   None \<Rightarrow> (Inl none_not_iterable, tr2)
                 | Some cols \<Rightarrow> (Inr (result, map col_name cols), tr2)))"

definition conn_commit :: "env \<Rightarrow> conn \<Rightarrow> trace \<Rightarrow> (exn + unit) \<times> trace" where
  "conn_commit env conn tr = (outcome (commit env), tr @ [EvCommit conn])"

section \<open>\<^verbatim>\<open>perform_db_operation\<close> (lines 96 to 131)\<close>

text \<open>
  What the method returns: the pair of rows and column names, or a pair of two strings
  (the success marker and the error marker).
\<close>

datatype db_result =
    RowsAndColumns "row list" "string list"
  | Marker string string

text \<open>
  The body of the \<^verbatim>\<open>try\<close> (lines 106 to 123). Besides the outcome it gives the local
  variables \<^verbatim>\<open>conn\<close> and \<^verbatim>\<open>cursor\<close> as the \<^verbatim>\<open>finally\<close> block finds them: \<open>None\<close> when
  \<^verbatim>\<open>create_cursor\<close> raised and the names were never bound. Once bound they are driver
  objects, never \<^verbatim>\<open>None\<close>.
\<close>

definition perform_db_operation_try ::
  "env \<Rightarrow> azsql \<Rightarrow> string \<Rightarrow> pyval \<Rightarrow> bool \<Rightarrow> bool \<Rightarrow> trace
     \<Rightarrow> (exn + db_result) \<times> (conn \<times> cursor) option \<times> trace" where
  "perform_db_operation_try env self query data_values has_return needs_commit tr =
     (case create_cursor env self 3 5 tr of
        (Inl e, tr1) \<Rightarrow> (Inl e, None, tr1)
      | (Inr (conn, cursor), tr1) \<Rightarrow>
          (case run_query env cursor query data_values tr1 of
             (Inl e, tr2) \<Rightarrow> (Inl e, Some (conn, cursor), tr2)
           | (Inr u, tr2) \<Rightarrow>
               if has_return then
                 (case fetch_result env cursor tr2 of
                    (Inl e, tr3) \<Rightarrow> (Inl e, Some (conn, cursor), tr3)
                  | (Inr (result, column_names), tr3) \<Rightarrow>
                      if needs_commit then
                        (case conn_commit env conn tr3 of
                           (Inl e, tr4) \<Rightarrow> (Inl e, Some (conn, cursor), tr4)
                         | (Inr u', tr4) \<Rightarrow>
                             (Inr (RowsAndColumns result column_names), Some (conn, cursor), tr4))
                      else (Inr (RowsAndColumns result column_names), Some (conn, cursor), tr3))
               else
                 (case conn_commit env conn tr2 of
                    (Inl e, tr3) \<Rightarrow> (Inl e, Some (conn, cursor), tr3)
                  | (Inr u', tr3) \<Rightarrow>
                      (Inr (Marker ''Success'' ''Operation successful''),
                       Some (conn, cursor), tr3))))"

text \<open>The handler (lines 124 to 126) turns every exception into the error marker pair.\<close>

definition perform_db_operation_except :: "exn \<Rightarrow> trace \<Rightarrow> (exn + db_result) \<times> trace" where
  "perform_db_operation_except e tr =
     (Inr (Marker ''Error'' (''Error performing query: '' @ exn_str e)),
      tr @ [EvLogError (''Error performing query: '' @ exn_str e)])"

text \<open>
  The \<^verbatim>\<open>finally\<close> block (lines 127 to 131); \<open>Some e\<close> when it raises. The two closes are
  not guarded: when \<^verbatim>\<open>cursor.close()\<close> raises, \<^verbatim>\<open>conn.close()\<close> is not reached.
\<close>

definition perform_db_operation_finally ::
  "env \<Rightarrow> (conn \<times> cursor) option \<Rightarrow> trace \<Rightarrow> exn option \<times> trace" where
  "perform_db_operation_finally env locals tr =
     (case locals of
        None \<Rightarrow> (None, tr)
      | Some (conn, cursor) \<Rightarrow>
          (case cursor_close env of
             Some e \<Rightarrow> (Some e, tr @ [EvCloseCursor cursor])
           | None \<Rightarrow> (conn_close env, tr @ [EvCloseCursor cursor] @ [EvCloseConn conn])))"

text \<open>
  The whole method: an exception out of the \<^verbatim>\<open>finally\<close> block replaces the pending return
  value.
\<close>

definition perform_db_operation ::
  "env \<Rightarrow> azsql \<Rightarrow> string \<Rightarrow> pyval \<Rightarrow> bool \<Rightarrow> bool \<Rightarrow> trace \<Rightarrow> (exn + db_result) \<times> trace" where
  "perform_db_operation env self query data_values has_return needs_commit tr =
     (case perform_db_operation_try env self query data_values has_return needs_commit tr of
        (r, locals, tr1) \<Rightarrow>
          (case (case r of Inl e \<Rightarrow> perform_db_operation_except e tr1 | Inr v \<Rightarrow> (Inr v, tr1)) of
             (pending, tr2) \<Rightarrow>
               (case perform_db_operation_finally env locals tr2 of
                  (Some e, tr3) \<Rightarrow> (Inl e, tr3)
                | (None, tr3) \<Rightarrow> (pending, tr3))))"

section \<open>\<^verbatim>\<open>perform_atomic_db_operation\<close> (lines 134 to 189)\<close>

text \<open>
  The four return shapes: \<^verbatim>\<open>(result, column_names)\<close>,
  \<^verbatim>\<open>(result, column_names, conn, cursor)\<close>, \<^verbatim>\<open>"Success"\<close> and \<^verbatim>\<open>("Success", conn, cursor)\<close>.
\<close>

datatype atomic_result =
    Rows2 "row list" "string list"
  | Rows4 "row list" "string list" conn cursor
  | Success1
  | Success3 conn cursor

text \<open>
  Lines 149, 150. The parameters \<^verbatim>\<open>conn\<close> and \<^verbatim>\<open>cursor\<close> default to \<^verbatim>\<open>None\<close>. When one of
  them is \<^verbatim>\<open>None\<close> both are assigned from \<^verbatim>\<open>create_cursor\<close>; when that raises, the
  assignment does not happen and both keep the value the caller gave.
\<close>

definition atomic_acquire ::
  "env \<Rightarrow> azsql \<Rightarrow> conn option \<Rightarrow> cursor option \<Rightarrow> trace
     \<Rightarrow> (exn + conn \<times> cursor) \<times> trace" where
  "atomic_acquire env self conn cursor tr =
     (case (conn, cursor) of
        (Some c, Some cu) \<Rightarrow> (Inr (c, cu), tr)
      | _ \<Rightarrow> create_cursor env self 3 5 tr)"

text \<open>
  The body of the \<^verbatim>\<open>try\<close> (lines 149 to 171), with the values of \<^verbatim>\<open>conn\<close> and \<^verbatim>\<open>cursor\<close>
  at its exit.
\<close>

definition atomic_try ::
  "env \<Rightarrow> azsql \<Rightarrow> string \<Rightarrow> pyval \<Rightarrow> bool \<Rightarrow> bool \<Rightarrow> bool \<Rightarrow> conn option \<Rightarrow> cursor option
     \<Rightarrow> trace \<Rightarrow> (exn + atomic_result) \<times> conn option \<times> cursor option \<times> trace" where
  "atomic_try env self query data_values has_return close_cursor close_conn conn cursor tr =
     (case atomic_acquire env self conn cursor tr of
        (Inl e, tr1) \<Rightarrow> (Inl e, conn, cursor, tr1)
      | (Inr (c, cu), tr1) \<Rightarrow>
          (case run_query env cu query data_values tr1 of
             (Inl e, tr2) \<Rightarrow> (Inl e, Some c, Some cu, tr2)
           | (Inr u, tr2) \<Rightarrow>
               if has_return then
                 (case fetch_result env cu tr2 of
                    (Inl e, tr3) \<Rightarrow> (Inl e, Some c, Some cu, tr3)
                  | (Inr (result, column_names), tr3) \<Rightarrow>
                      if \<not> close_cursor \<and> \<not> close_conn then
                        (Inr (Rows4 result column_names c cu), Some c, Some cu, tr3)
                      else (Inr (Rows2 result column_names), Some c, Some cu, tr3))
               else if \<not> close_cursor \<and> \<not> close_conn then
                 (Inr (Success3 c cu), Some c, Some cu, tr2)
               else (Inr Success1, Some c, Some cu, tr2)))"

text \<open>
  The handler (lines 173 to 177). \<^verbatim>\<open>conn.rollback()\<close> on \<^verbatim>\<open>None\<close> raises
  \<^verbatim>\<open>AttributeError\<close>; an exception out of the rollback replaces the one being handled.
  The handler always ends in a raise: it gives the exception that leaves it.
\<close>

definition atomic_except :: "env \<Rightarrow> exn \<Rightarrow> conn option \<Rightarrow> trace \<Rightarrow> exn \<times> trace" where
  "atomic_except env e conn tr =
     (case conn of
        None \<Rightarrow> (none_has_no_attribute ''rollback'', tr)
      | Some c \<Rightarrow>
          (case rollback env of
             Some e' \<Rightarrow> (e', tr @ [EvRollback c])
           | None \<Rightarrow>
               (e, tr @ [EvRollback c]
                      @ [EvLogError (''Error in atomic operation: '' @ exn_str e)])))"

text \<open>
  The \<^verbatim>\<open>finally\<close> block (lines 179 to 189); \<open>Some e\<close> when it raises. \<^verbatim>\<open>conn\<close> and \<^verbatim>\<open>cursor\<close>
  are parameters, so they are always in \<^verbatim>\<open>locals()\<close>. A statement that raises ends the
  block: a raising commit skips both closes, a raising \<^verbatim>\<open>cursor.close()\<close> skips
  \<^verbatim>\<open>conn.close()\<close>.
\<close>

definition atomic_commit :: "env \<Rightarrow> bool \<Rightarrow> conn option \<Rightarrow> trace \<Rightarrow> exn option \<times> trace" where
  "atomic_commit env needs_commit conn tr =
     (if needs_commit then
        (case conn of
           None \<Rightarrow>
             (Some (none_has_no_attribute ''commit''),
              tr @ [EvPrint ''Committing transaction''])
         | Some c \<Rightarrow> (commit env, tr @ [EvPrint ''Committing transaction''] @ [EvCommit c]))
      else (None, tr))"

definition atomic_close ::
  "env \<Rightarrow> bool \<Rightarrow> bool \<Rightarrow> conn option \<Rightarrow> cursor option \<Rightarrow> trace \<Rightarrow> exn option \<times> trace" where
  "atomic_close env close_cursor close_conn conn cursor tr =
     (case (case cursor of
              Some cu \<Rightarrow>
                if close_cursor then (cursor_close env, tr @ [EvCloseCursor cu]) else (None, tr)
            | None \<Rightarrow> (None, tr)) of
        (Some e, tr1) \<Rightarrow> (Some e, tr1)
      | (None, tr1) \<Rightarrow>
          (case conn of
             Some c \<Rightarrow> if close_conn then (conn_close env, tr1 @ [EvCloseConn c]) else (None, tr1)
           | None \<Rightarrow> (None, tr1)))"

definition atomic_finally ::
  "env \<Rightarrow> bool \<Rightarrow> bool \<Rightarrow> bool \<Rightarrow> conn option \<Rightarrow> cursor option \<Rightarrow> trace \<Rightarrow> exn option \<times> trace" where
  "atomic_finally env needs_commit close_cursor close_conn conn cursor tr =
     (case atomic_commit env needs_commit conn tr of
        (Some e, tr1) \<Rightarrow> (Some e, tr1)
      | (None, tr1) \<Rightarrow> atomic_close env close_cursor close_conn conn cursor tr1)"

text \<open>
  The whole method: an exception out of the \<^verbatim>\<open>finally\<close> block replaces the pending return
  value or exception.
\<close>

definition perform_atomic_db_operation ::
  "env \<Rightarrow> azsql \<Rightarrow> string \<Rightarrow> pyval \<Rightarrow> bool \<Rightarrow> bool \<Rightarrow> bool \<Rightarrow> conn option \<Rightarrow> cursor option
     \<Rightarrow> bool \<Rightarrow> trace \<Rightarrow> (exn + atomic_result) \<times> trace" where
  "perform_atomic_db_operation env self query data_values has_return close_cursor close_conn
       conn cursor needs_commit tr =
     (case atomic_try env self query data_values has_return close_cursor close_conn conn cursor tr of
        (r, conn1, cursor1, tr1) \<Rightarrow>
          (case (case r of
                   Inl e \<Rightarrow> (case atomic_except env e conn1 tr1 of (e', tr2) \<Rightarrow> (Inl e', tr2))
                 | Inr v \<Rightarrow> (Inr v, tr1)) of
             (pending, tr2) \<Rightarrow>
               (case atomic_finally env needs_commit close_cursor close_conn conn1 cursor1 tr2 of
                  (Some e, tr3) \<Rightarrow> (Inl e, tr3)
                | (None, tr3) \<Rightarrow> (pending, tr3))))"

section \<open>Notions of the specification\<close>

text \<open>
  What the specification reads back: a byte string as a little-endian unsigned integer
  (\<^verbatim>\<open>int.from_bytes(bs, 'little')\<close>), and the property of being an ASCII string.
\<close>

fun le_decode :: "byte list \<Rightarrow> nat" where
  "le_decode [] = 0"
| "le_decode (b # bs) = b + 256 * le_decode bs"

definition is_ascii :: "pystr \<Rightarrow> bool" where
  "is_ascii s = list_all (\<lambda>c. c < 128) s"

text \<open>
  What a trace shows of an acquisition: the number of connection attempts (calls of
  \<^verbatim>\<open>pyodbc.connect\<close>), the lengths of the sleeps in order, and the token presented at each
  attempt in order.
\<close>

fun is_connect :: "event \<Rightarrow> bool" where
  "is_connect (EvConnect connString key tokenstruct) = True"
| "is_connect ev = False"

definition attempts_made :: "trace \<Rightarrow> nat" where
  "attempts_made tr = length (filter is_connect tr)"

fun sleeps :: "trace \<Rightarrow> int list" where
  "sleeps [] = []"
| "sleeps (EvSleep d # tr) = d # sleeps tr"
| "sleeps (ev # tr) = sleeps tr"

fun connect_tokens :: "trace \<Rightarrow> byte list list" where
  "connect_tokens [] = []"
| "connect_tokens (EvConnect connString key tokenstruct # tr) = tokenstruct # connect_tokens tr"
| "connect_tokens (ev # tr) = connect_tokens tr"



text \<open>
  The calls on the identity provider in one run of \<^verbatim>\<open>config_sql\<close>: the constructor of the
  application, and the token request when the constructor did not raise.
\<close>

definition app_event :: "env \<Rightarrow> event" where
  "app_event env = EvNewApp (CLIENT_ID env) (''https://login.microsoftonline.com/'' @ TENANT_ID env) (CLIENT_CREDENTIAL env)"

definition idp_calls :: "env \<Rightarrow> trace" where
  "idp_calls env =
     app_event env #
       (case new_app env of
          None \<Rightarrow> [EvAcquireToken [''https://database.windows.net//.default'']]
        | Some e \<Rightarrow> [])"

text \<open>
  A concrete instance and concrete collaborators, for the closed theorems: an identity
  provider that issues a different token at each request (\<open>A\<close>, \<open>B\<close>, ...), and a driver
  that answers every call; then connectors that always time out, that time out once, and
  that refuse the login; and an identity provider that raises.
\<close>

definition self0 :: azsql where
  "self0 = \<lparr>server = ''srv'', database = ''db''\<rparr>"

definition env_ok :: env where
  "env_ok =
     \<lparr>TENANT_ID = ''tenant'', CLIENT_ID = ''client'', CLIENT_CREDENTIAL = ''secret'',
      host_byteorder = LittleEndian, new_app = None,
      acquire_token_for_client = (\<lambda>n. Inr [(''access_token'', [65 + n])]),
      connect = (\<lambda>i. Inr (Conn i)), new_cursor = (\<lambda>i. Inr (Cursor i)),
      execute = None, executemany = None,
      fetchall = Inr [[PInt 1, PStr ''a'']],
      description = Some [Column ''id'' ''int'', Column ''name'' ''str''],
      commit = None, rollback = None, cursor_close = None, conn_close = None\<rparr>"

definition env_timeouts :: env where
  "env_timeouts = env_ok\<lparr>connect := (\<lambda>i. Inl (OperationalError ''[HYT00] Login timeout expired''))\<rparr>"

definition env_retry :: env where
  "env_retry =
     env_ok\<lparr>connect := (\<lambda>i. if i = 0 then Inl (OperationalError ''[HYT00] Login timeout expired'')
                          else Inr (Conn i))\<rparr>"


definition env_no_idp :: env where
  "env_no_idp = env_ok\<lparr>acquire_token_for_client := (\<lambda>n. Inl (DriverError ''connection refused''))\<rparr>"

text \<open>
  The connection string of the concrete instance, and the trace of its token
  configuration.
\<close>

definition cs0 :: string where
  "cs0 = ''DRIVER={ODBC Driver 18 for SQL Server};SERVER=srv;DATABASE=db;ENCRYPT=NO''"

definition tr0_ok :: trace where
  "tr0_ok = [EvNewApp ''client'' ''https://login.microsoftonline.com/tenant'' ''secret'',
             EvAcquireToken [''https://database.windows.net//.default'']]"

text \<open>
  The events \<^verbatim>\<open>create_cursor\<close> can cause: calls on the identity provider, connection
  attempts, sleeps and log lines.
\<close>

fun acquisition_event :: "event \<Rightarrow> bool" where
  "acquisition_event (EvNewApp client authority credential) = True"
| "acquisition_event (EvAcquireToken scopes) = True"
| "acquisition_event (EvConnect connString key tokenstruct) = True"
| "acquisition_event (EvCursor c) = True"
| "acquisition_event (EvSleep d) = True"
| "acquisition_event (EvLogWarning m) = True"
| "acquisition_event (EvLogError m) = True"
| "acquisition_event ev = False"

text \<open>
  The closes, commits and rollbacks of a trace, in order.
\<close>

fun is_close :: "event \<Rightarrow> bool" where
  "is_close (EvCloseCursor cu) = True"
| "is_close (EvCloseConn c) = True"
| "is_close ev = False"

fun is_commit :: "event \<Rightarrow> bool" where
  "is_commit (EvCommit c) = True"
| "is_commit ev = False"

fun is_rollback :: "event \<Rightarrow> bool" where
  "is_rollback (EvRollback c) = True"
| "is_rollback ev = False"

definition closes :: "trace \<Rightarrow> trace" where
  "closes tr = filter is_close tr"

definition commits :: "trace \<Rightarrow> trace" where
  "commits tr = filter is_commit tr"

definition rollbacks :: "trace \<Rightarrow> trace" where
  "rollbacks tr = filter is_rollback tr"

text \<open>
  The values that are dispatched to \<^verbatim>\<open>executemany\<close>: a non-empty list of tuples.
\<close>

fun batch_values :: "pyval \<Rightarrow> bool" where
  "batch_values (PList (x # xs)) = list_all is_tuple (x # xs)"
| "batch_values v = False"

text \<open>
  The call on the cursor that a value of \<^verbatim>\<open>data_values\<close> leads to, and the answer of the
  driver to it.
\<close>

definition query_event :: "cursor \<Rightarrow> string \<Rightarrow> pyval \<Rightarrow> event" where
  "query_event cu query data_values =
     (if batch_values data_values then EvExecuteMany cu query data_values
      else if truthy data_values then EvExecuteParams cu query data_values
      else EvExecute cu query)"

definition query_outcome :: "env \<Rightarrow> pyval \<Rightarrow> exn + unit" where
  "query_outcome env data_values =
     outcome (if batch_values data_values then executemany env else execute env)"

text \<open>
  The events of the body of the \<^verbatim>\<open>try\<close> of \<^verbatim>\<open>perform_db_operation\<close> after the query, when
  nothing raises.
\<close>

definition success_events :: "bool \<Rightarrow> bool \<Rightarrow> conn \<Rightarrow> cursor \<Rightarrow> trace" where
  "success_events has_return needs_commit c cu =
     (if has_return then
        [EvFetchAll cu, EvDescription cu] @ (if needs_commit then [EvCommit c] else [])
      else [EvCommit c])"


text \<open>
  The trace of a successful acquisition at the first attempt.
\<close>

definition tr1_ok :: trace where
  "tr1_ok = tr0_ok @ [EvConnect cs0 1256 [2, 0, 0, 0, 65, 0], EvCursor (Conn 0)]"

text \<open>
  The four return shapes of \<^verbatim>\<open>perform_atomic_db_operation\<close>, by the flags.
\<close>

definition return_shape ::
  "bool \<Rightarrow> bool \<Rightarrow> bool \<Rightarrow> row list \<Rightarrow> string list \<Rightarrow> conn \<Rightarrow> cursor \<Rightarrow> atomic_result" where
  "return_shape has_return close_cursor close_conn rows column_names c cu =
     (if has_return then
        (if \<not> close_cursor \<and> \<not> close_conn then Rows4 rows column_names c cu
         else Rows2 rows column_names)
      else (if \<not> close_cursor \<and> \<not> close_conn then Success3 c cu else Success1))"

text \<open>
  A sequence of parameter tuples, in the words of claim C8: a non-empty list or tuple whose
  elements are all tuples.
\<close>

definition sequence_of_tuples :: "pyval \<Rightarrow> bool" where
  "sequence_of_tuples v =
     ((is_list v \<or> is_tuple v) \<and> elements v \<noteq> [] \<and> list_all is_tuple (elements v))"

text \<open>
  Two parameter tuples, as a list and as a tuple.
\<close>

definition batch0 :: pyval where
  "batch0 = PList [PTuple [PInt 1, PStr ''a''], PTuple [PInt 2, PStr ''b'']]"

definition tuples0 :: pyval where
  "tuples0 = PTuple [PTuple [PInt 1, PStr ''a''], PTuple [PInt 2, PStr ''b'']]"

text \<open>
  The trace of an acquisition whose three attempts all time out.
\<close>

definition tr_timeouts :: trace where
  "tr_timeouts =
     tr0_ok @
     [EvConnect cs0 1256 [2, 0, 0, 0, 65, 0],
      EvLogWarning ''Attempt 1 failed, retrying in 5 seconds...'', EvSleep 5,
      EvConnect cs0 1256 [2, 0, 0, 0, 65, 0],
      EvLogWarning ''Attempt 2 failed, retrying in 5 seconds...'', EvSleep 5,
      EvConnect cs0 1256 [2, 0, 0, 0, 65, 0],
      EvLogWarning ''Attempt 3 failed, retrying in 5 seconds...'', EvSleep 5,
      EvLogError ''Maximum retry attempts reached'']"

text \<open>
  An identity provider whose token has \<open>2^30\<close> characters, and a big-endian host.
\<close>

definition env_huge :: env where
  "env_huge =
     env_ok\<lparr>acquire_token_for_client := (\<lambda>n. Inr [(''access_token'', replicate 1073741824 97)])\<rparr>"

definition env_be :: env where
  "env_be = env_ok\<lparr>host_byteorder := BigEndian\<rparr>"





text \<open>
  The calls on the driver that the body of the \<^verbatim>\<open>try\<close> of \<^verbatim>\<open>perform_db_operation\<close> is to
  make once the connection \<open>c\<close> and the cursor \<open>cu\<close> are acquired, in order, each with the
  answer of the driver (\<open>Some e\<close> when the call raises \<open>e\<close>): the query; with \<^verbatim>\<open>has_return\<close>
  the fetch, the read of the description (iterating over \<^verbatim>\<open>None\<close> raises \<^verbatim>\<open>TypeError\<close>) and,
  with \<^verbatim>\<open>needs_commit\<close>, the commit; without \<^verbatim>\<open>has_return\<close> the commit.
\<close>

definition body_steps ::
  "env \<Rightarrow> string \<Rightarrow> pyval \<Rightarrow> bool \<Rightarrow> bool \<Rightarrow> conn \<Rightarrow> cursor \<Rightarrow> (event \<times> exn option) list" where
  "body_steps env query data_values has_return needs_commit c cu =
     (query_event cu query data_values,
      if batch_values data_values then executemany env else execute env) #
     (if has_return then
        [(EvFetchAll cu, case fetchall env of Inl e \<Rightarrow> Some e | Inr rows \<Rightarrow> None),
         (EvDescription cu,
          case description env of None \<Rightarrow> Some none_not_iterable | Some cols \<Rightarrow> None)]
        @ (if needs_commit then [(EvCommit c, commit env)] else [])
      else [(EvCommit c, commit env)])"

text \<open>
  A sequence of calls runs up to and including the first call that raises: the calls
  made, and the exception if there is one.
\<close>

fun steps_run :: "(event \<times> exn option) list \<Rightarrow> trace \<times> exn option" where
  "steps_run [] = ([], None)"
| "steps_run ((ev, Some e) # rest) = ([ev], Some e)"
| "steps_run ((ev, None) # rest) = (case steps_run rest of (evs, r) \<Rightarrow> (ev # evs, r))"

text \<open>
  A driver whose \<^verbatim>\<open>cursor.close()\<close> raises, and one whose \<^verbatim>\<open>conn.close()\<close> raises.
\<close>

definition env_cursor_close_fails :: env where
  "env_cursor_close_fails = env_ok\<lparr>cursor_close := Some (DriverError ''cursor is busy'')\<rparr>"


section \<open>The token encoder: bytes, expansion and prefix\<close>

lemma bytes_utf8_from_ascii: "is_ascii s \<Longrightarrow> bytes_utf8_from pos s = Inr s"
  by (induction s arbitrary: pos) (simp_all add: is_ascii_def utf8_char_def is_surrogate_def)

lemma bytes_utf8_ascii: "is_ascii s \<Longrightarrow> bytes_utf8 s = Inr s"
  by (simp add: bytes_utf8_def bytes_utf8_from_ascii)

lemma length_expand_token: "length (expand_token bs) = 2 * length bs"
  by (induction bs) (simp_all add: expand_token_def)

lemma expand_token_even: "i < length bs \<Longrightarrow> expand_token bs ! (2 * i) = bs ! i"
proof (induction bs arbitrary: i)
  case Nil
  then show ?case by simp
next
  case (Cons b bs)
  show ?case
  proof (cases i)
    case 0
    then show ?thesis by (simp add: expand_token_def)
  next
    case (Suc j)
    with Cons.prems have "j < length bs" by simp
    from Cons.IH [OF this] Suc show ?thesis by (simp add: expand_token_def)
  qed
qed

lemma expand_token_odd: "i < length bs \<Longrightarrow> expand_token bs ! (2 * i + 1) = 0"
proof (induction bs arbitrary: i)
  case Nil
  then show ?case by simp
next
  case (Cons b bs)
  show ?case
  proof (cases i)
    case 0
    then show ?thesis by (simp add: expand_token_def)
  next
    case (Suc j)
    with Cons.prems have "j < length bs" by simp
    from Cons.IH [OF this] Suc show ?thesis by (simp add: expand_token_def)
  qed
qed

lemma le_decode_four:
  fixes u :: nat
  assumes "u < 4294967296"
  shows "le_decode [u mod 256, u div 256 mod 256, u div 65536 mod 256, u div 16777216 mod 256] = u"
proof -
  define a where "a = u div 256"
  define b where "b = a div 256"
  define c where "c = b div 256"
  have ub: "u div 65536 = b"
    unfolding b_def a_def by (simp add: div_mult2_eq [symmetric])
  have uc: "u div 16777216 = c"
    unfolding c_def b_def a_def by (simp add: div_mult2_eq [symmetric])
  have "c < 256"
    using assms unfolding uc [symmetric] by (simp add: less_mult_imp_div_less)
  then have c: "c mod 256 = c" by simp
  have 1: "b mod 256 + 256 * c = b"
    unfolding c_def by (rule mod_mult_div_eq)
  have 2: "a mod 256 + 256 * b = a"
    unfolding b_def by (rule mod_mult_div_eq)
  have 3: "u mod 256 + 256 * a = u"
    unfolding a_def by (rule mod_mult_div_eq)
  have "le_decode [u mod 256, a mod 256, b mod 256, c mod 256] = u"
    using 1 2 3 c by simp
  then show ?thesis
    unfolding ub uc a_def [symmetric] .
qed

lemma struct_pack_i_little:
  assumes "n < 2147483648"
  shows "\<exists>hdr. struct_pack_i LittleEndian (int n) = Inr hdr \<and> length hdr = 4 \<and> le_decode hdr = n"
proof -
  have n: "nat (int n mod 4294967296) = n"
    using assms by simp
  have "n < 4294967296" using assms by simp
  from le_decode_four [OF this] n assms show ?thesis
    by (simp add: struct_pack_i_def Let_def del: le_decode.simps)
qed

lemma struct_pack_i_range: "2147483647 < n \<Longrightarrow> struct_pack_i bo n = Inl struct_range_error"
  by (simp add: struct_pack_i_def)

section \<open>Claim C1: the layout of the encoded token\<close>

lemma encode_token_ascii:
  assumes "is_ascii s"
  shows "encode_token bo s =
     (case struct_pack_i bo (int (2 * length s)) of
        Inl e \<Rightarrow> Inl e | Inr hdr \<Rightarrow> Inr (hdr @ expand_token s))"
  using bytes_utf8_ascii [OF assms]
  by (simp add: encode_token_def Let_def length_expand_token)

lemma encode_token_too_long:
  assumes "is_ascii s" and "1073741824 \<le> length s"
  shows "encode_token bo s = Inl struct_range_error"
proof -
  have "2147483647 < int (2 * length s)" using assms(2) by simp
  from struct_pack_i_range [OF this] show ?thesis
    by (simp only: encode_token_ascii [OF assms(1)] sum.case)
qed

lemma is_ascii_replicate: "c < 128 \<Longrightarrow> is_ascii (replicate n c)"
  by (simp add: is_ascii_def list_all_iff)

lemma encode_token_layout:
  assumes "is_ascii token" and "length token < 1073741824"
  shows "\<exists>buf. encode_token LittleEndian token = Inr buf \<and>
           length buf = 4 + 2 * length token \<and>
           le_decode (take 4 buf) = 2 * length token \<and>
           (\<forall>i < length token. buf ! (4 + 2 * i) = token ! i \<and> buf ! (4 + 2 * i + 1) = 0)"
proof -
  have "2 * length token < 2147483648" using assms(2) by simp
  from struct_pack_i_little [OF this] obtain hdr where
    hdr: "struct_pack_i LittleEndian (int (2 * length token)) = Inr hdr"
      "length hdr = 4" "le_decode hdr = 2 * length token"
    by blast
  let ?buf = "hdr @ expand_token token"
  have enc: "encode_token LittleEndian token = Inr ?buf"
    by (simp only: encode_token_ascii [OF assms(1)] hdr(1) sum.case)
  have len: "length ?buf = 4 + 2 * length token"
    by (simp add: hdr(2) length_expand_token)
  have dec: "le_decode (take 4 ?buf) = 2 * length token"
    using hdr(2,3) by simp
  have bytes: "?buf ! (4 + 2 * i) = token ! i \<and> ?buf ! (4 + 2 * i + 1) = 0"
    if "i < length token" for i
  proof -
    have "?buf ! (4 + 2 * i) = expand_token token ! (2 * i)"
      using hdr(2) by (simp add: nth_append)
    moreover have "?buf ! (4 + 2 * i + 1) = expand_token token ! (2 * i + 1)"
      using hdr(2) by (simp add: nth_append)
    ultimately show ?thesis
      using expand_token_even [OF that] expand_token_odd [OF that] by simp
  qed
  from enc len dec bytes show ?thesis by blast
qed

lemma config_sql_token:
  assumes "new_app env = None"
    and "acquire_token_for_client env (token_requests tr) = Inr answer"
    and "map_of answer ''access_token'' = Some token"
  shows "config_sql env self tr =
     (case encode_token (host_byteorder env) token of
        Inl e \<Rightarrow>
          (None, tr @ idp_calls env
                   @ [EvLogError (''Error configuring SQL connection: '' @ exn_str e)])
      | Inr buf \<Rightarrow> (Some (conn_string self, buf, SQL_COPT_SS_ACCESS_TOKEN), tr @ idp_calls env))"
  using assms
  by (simp add: config_sql_def config_sql_try_def idp_calls_def app_event_def Let_def
      token_requests_def split: sum.splits)

text \<open>
  Claim C1, as amended. Let the identity provider answer with an ASCII token of length
  \<open>N\<close>. On a little-endian host and for \<open>N\<close> below \<open>2^30\<close> (so that \<open>2 * N\<close> fits the signed
  32-bit prefix), \<^verbatim>\<open>config_sql\<close> returns a buffer of length \<open>4 + 2 * N\<close>; its first four bytes
  read as a little-endian integer give \<open>2 * N\<close>; byte \<open>4 + 2 * i\<close> is the \<open>i\<close>-th byte of the
  UTF-8 encoding of the token, which has \<open>N\<close> bytes, and byte \<open>4 + 2 * i + 1\<close> is zero, for
  every \<open>i\<close> below \<open>N\<close>. For \<open>N\<close> from \<open>2^30\<close> on, on any host, \<^verbatim>\<open>struct.pack\<close> raises
  \<^verbatim>\<open>struct.error\<close>, which \<^verbatim>\<open>config_sql\<close> catches and logs: it returns no buffer.
\<close>

theorem token_encoding:
  assumes "is_ascii token" and "new_app env = None"
    and "acquire_token_for_client env (token_requests tr) = Inr answer"
    and "map_of answer ''access_token'' = Some token"
  shows
    "(host_byteorder env = LittleEndian \<and> length token < 1073741824 \<longrightarrow>
        (\<exists>tokenb buf.
           bytes_utf8 token = Inr tokenb \<and> length tokenb = length token \<and>
           encode_token LittleEndian token = Inr buf \<and>
           config_sql env self tr
             = (Some (conn_string self, buf, SQL_COPT_SS_ACCESS_TOKEN), tr @ idp_calls env) \<and>
           length buf = 4 + 2 * length token \<and>
           le_decode (take 4 buf) = 2 * length token \<and>
           (\<forall>i < length token. buf ! (4 + 2 * i) = tokenb ! i \<and> buf ! (4 + 2 * i + 1) = 0))) \<and>
     (1073741824 \<le> length token \<longrightarrow>
        encode_token (host_byteorder env) token = Inl struct_range_error \<and>
        config_sql env self tr
          = (None, tr @ idp_calls env
                     @ [EvLogError (''Error configuring SQL connection: ''
                                      @ exn_str struct_range_error)]))"
proof (intro conjI impI)
  assume h: "host_byteorder env = LittleEndian \<and> length token < 1073741824"
  from encode_token_layout [OF assms(1)] h obtain buf where
    buf: "encode_token LittleEndian token = Inr buf"
      "length buf = 4 + 2 * length token"
      "le_decode (take 4 buf) = 2 * length token"
      "\<forall>i < length token. buf ! (4 + 2 * i) = token ! i \<and> buf ! (4 + 2 * i + 1) = 0"
    by blast
  have "config_sql env self tr
          = (Some (conn_string self, buf, SQL_COPT_SS_ACCESS_TOKEN), tr @ idp_calls env)"
    using h buf(1) by (simp add: config_sql_token [OF assms(2,3,4)])
  with bytes_utf8_ascii [OF assms(1)] buf
  show "\<exists>tokenb buf.
           bytes_utf8 token = Inr tokenb \<and> length tokenb = length token \<and>
           encode_token LittleEndian token = Inr buf \<and>
           config_sql env self tr
             = (Some (conn_string self, buf, SQL_COPT_SS_ACCESS_TOKEN), tr @ idp_calls env) \<and>
           length buf = 4 + 2 * length token \<and>
           le_decode (take 4 buf) = 2 * length token \<and>
           (\<forall>i < length token. buf ! (4 + 2 * i) = tokenb ! i \<and> buf ! (4 + 2 * i + 1) = 0)"
    by blast
next
  assume h: "1073741824 \<le> length token"
  from encode_token_too_long [OF assms(1) h]
  show e: "encode_token (host_byteorder env) token = Inl struct_range_error" .
  then show "config_sql env self tr
          = (None, tr @ idp_calls env
                     @ [EvLogError (''Error configuring SQL connection: ''
                                      @ exn_str struct_range_error)])"
    by (simp add: config_sql_token [OF assms(2,3,4)])
qed

lemma idp_calls_env_ok:
  "TENANT_ID env = ''tenant'' \<Longrightarrow> CLIENT_ID env = ''client'' \<Longrightarrow>
   CLIENT_CREDENTIAL env = ''secret'' \<Longrightarrow> new_app env = None \<Longrightarrow> idp_calls env = tr0_ok"
  by (simp add: idp_calls_def app_event_def tr0_ok_def)

lemma config_sql_env_huge:
  "config_sql env_huge self0 []
     = (None, tr0_ok @ [EvLogError (''Error configuring SQL connection: ''
                                      @ exn_str struct_range_error)])"
proof -
  have a: "is_ascii (replicate 1073741824 97)" by (rule is_ascii_replicate) simp
  have "length (replicate 1073741824 (97 :: nat)) = 1073741824" by (rule length_replicate)
  then have l: "1073741824 \<le> length (replicate 1073741824 (97 :: nat))" by simp
  have n: "new_app env_huge = None"
    and q: "acquire_token_for_client env_huge (token_requests [])
              = Inr [(''access_token'', replicate 1073741824 97)]"
    and m: "map_of [(''access_token'', replicate 1073741824 (97 :: nat))] ''access_token''
              = Some (replicate 1073741824 97)"
    by (simp_all add: env_huge_def env_ok_def)
  have i: "idp_calls env_huge = tr0_ok"
    by (rule idp_calls_env_ok) (simp_all add: env_huge_def env_ok_def)
  from encode_token_too_long [OF a l]
  have "encode_token (host_byteorder env_huge) (replicate 1073741824 97) = Inl struct_range_error" .
  then show ?thesis
    by (simp only: config_sql_token [OF n q m] i sum.case append_Nil)
qed

lemma config_sql_env_ok:
  "config_sql env_ok self0 [] = (Some (cs0, [2, 0, 0, 0, 65, 0], 1256), tr0_ok)"
  by (simp add: config_sql_def config_sql_try_def env_ok_def self0_def cs0_def tr0_ok_def
      token_requests_def encode_token_def bytes_utf8_def utf8_char_def is_surrogate_def
      expand_token_def struct_pack_i_def conn_string_def SQL_COPT_SS_ACCESS_TOKEN_def Let_def)

text \<open>
  The amended claim at the one-character token \<^verbatim>\<open>A\<close> on a little-endian host, and at a
  token of \<open>2^30\<close> characters.
\<close>

theorem token_encoding_witness:
  "config_sql env_ok self0 [] = (Some (cs0, [2, 0, 0, 0, 65, 0], 1256), tr0_ok) \<and>
   bytes_utf8 [65] = Inr [65] \<and>
   length [2, 0, 0, 0, 65, 0 :: nat] = 4 + 2 * 1 \<and>
   le_decode (take 4 [2, 0, 0, 0, 65, 0]) = 2 * 1 \<and>
   [2, 0, 0, 0, 65, 0 :: nat] ! 4 = 65 \<and> [2, 0, 0, 0, 65, 0 :: nat] ! 5 = 0 \<and>
   config_sql env_huge self0 []
     = (None, tr0_ok @ [EvLogError (''Error configuring SQL connection: ''
                                      @ exn_str struct_range_error)])"
proof -
  have a: "is_ascii [65]" by (simp add: is_ascii_def)
  have n: "new_app env_ok = None"
    and q: "acquire_token_for_client env_ok (token_requests []) = Inr [(''access_token'', [65])]"
    and m: "map_of [(''access_token'', [65 :: nat])] ''access_token'' = Some [65]"
    and h: "host_byteorder env_ok = LittleEndian \<and> length [65 :: nat] < 1073741824"
    by (simp_all add: env_ok_def token_requests_def)
  from token_encoding [OF a n q m, of self0] h obtain tokenb buf where
    t: "bytes_utf8 [65] = Inr tokenb" "length tokenb = length [65 :: nat]"
       "config_sql env_ok self0 []
          = (Some (conn_string self0, buf, SQL_COPT_SS_ACCESS_TOKEN), [] @ idp_calls env_ok)"
       "length buf = 4 + 2 * length [65 :: nat]"
       "le_decode (take 4 buf) = 2 * length [65 :: nat]"
       "\<forall>i < length [65 :: nat]. buf ! (4 + 2 * i) = tokenb ! i \<and> buf ! (4 + 2 * i + 1) = 0"
    by blast
  from t(3) have b: "buf = [2, 0, 0, 0, 65, 0]" by (simp add: config_sql_env_ok)
  from t(1) have tb: "tokenb = [65]" by (simp add: bytes_utf8_ascii [OF a])
  have a': "is_ascii (replicate 1073741824 97)" by (rule is_ascii_replicate) simp
  have "length (replicate 1073741824 (97 :: nat)) = 1073741824" by (rule length_replicate)
  then have l: "1073741824 \<le> length (replicate 1073741824 (97 :: nat))" by simp
  have n': "new_app env_huge = None"
    and q': "acquire_token_for_client env_huge (token_requests [])
              = Inr [(''access_token'', replicate 1073741824 97)]"
    and m': "map_of [(''access_token'', replicate 1073741824 (97 :: nat))] ''access_token''
              = Some (replicate 1073741824 97)"
    by (simp_all add: env_huge_def env_ok_def)
  have i: "idp_calls env_huge = tr0_ok"
    by (rule idp_calls_env_ok) (simp_all add: env_huge_def env_ok_def)
  from token_encoding [OF a' n' q' m', of self0] l
  have big: "config_sql env_huge self0 []
     = (None, [] @ idp_calls env_huge @ [EvLogError (''Error configuring SQL connection: ''
                                      @ exn_str struct_range_error)])"
    by blast
  have w1: "config_sql env_ok self0 [] = (Some (cs0, [2, 0, 0, 0, 65, 0], 1256), tr0_ok)"
    by (rule config_sql_env_ok)
  have w2: "bytes_utf8 [65] = Inr [65]" using t(1) tb by simp
  have w3: "length [2, 0, 0, 0, 65, 0 :: nat] = 4 + 2 * 1" using t(4) b by simp
  have w4: "le_decode (take 4 [2, 0, 0, 0, 65, 0]) = 2 * 1" using t(5) b by simp
  have w5: "[2, 0, 0, 0, 65, 0 :: nat] ! 4 = 65 \<and> [2, 0, 0, 0, 65, 0 :: nat] ! 5 = 0"
    using t(6) b tb by simp
  have w6: "config_sql env_huge self0 []
     = (None, tr0_ok @ [EvLogError (''Error configuring SQL connection: ''
                                      @ exn_str struct_range_error)])"
    using big i by simp
  from w1 w2 w3 w4 w5 w6 show ?thesis by blast
qed

text \<open>
  Claim C1 as stated fails in two places. An ASCII token of \<open>2^30\<close> characters expands to
  \<open>2^31\<close> bytes, which the format \<^verbatim>\<open>'=i'\<close> cannot pack: \<^verbatim>\<open>struct.error\<close> is raised, caught and
  logged, and \<^verbatim>\<open>config_sql\<close> produces no buffer. On a big-endian host the prefix is written
  in the host's order, so the first four bytes of the buffer for the token \<^verbatim>\<open>A\<close> read as a
  little-endian integer give \<open>33554432\<close>, not \<open>2\<close>.
\<close>

theorem token_encoding_counterexample:
  "is_ascii (replicate 1073741824 97) \<and>
   length (replicate 1073741824 (97 :: nat)) = 1073741824 \<and>
   acquire_token_for_client env_huge 0 = Inr [(''access_token'', replicate 1073741824 97)] \<and>
   config_sql env_huge self0 []
     = (None, tr0_ok @ [EvLogError (''Error configuring SQL connection: ''
                                      @ exn_str struct_range_error)]) \<and>
   is_ascii [65] \<and>
   acquire_token_for_client env_be 0 = Inr [(''access_token'', [65])] \<and>
   host_byteorder env_be = BigEndian \<and>
   config_sql env_be self0 [] = (Some (cs0, [0, 0, 0, 2, 65, 0], 1256), tr0_ok) \<and>
   le_decode (take 4 [0, 0, 0, 2, 65, 0]) = 33554432"
proof -
  have a: "is_ascii (replicate 1073741824 97)" by (rule is_ascii_replicate) simp
  have l: "length (replicate 1073741824 (97 :: nat)) = 1073741824" by (rule length_replicate)
  have q: "acquire_token_for_client env_huge 0 = Inr [(''access_token'', replicate 1073741824 97)]"
    by (simp add: env_huge_def env_ok_def)
  have be: "config_sql env_be self0 [] = (Some (cs0, [0, 0, 0, 2, 65, 0], 1256), tr0_ok)"
    by (simp add: config_sql_def config_sql_try_def env_be_def env_ok_def self0_def cs0_def
        tr0_ok_def token_requests_def encode_token_def bytes_utf8_def utf8_char_def
        is_surrogate_def expand_token_def struct_pack_i_def conn_string_def
        SQL_COPT_SS_ACCESS_TOKEN_def Let_def)
  have q': "acquire_token_for_client env_be 0 = Inr [(''access_token'', [65])]"
    "host_byteorder env_be = BigEndian"
    by (simp_all add: env_be_def env_ok_def)
  have d: "le_decode (take 4 [0, 0, 0, 2, 65, 0]) = 33554432" by simp
  have "is_ascii [65]" by (simp add: is_ascii_def)
  with a l q config_sql_env_huge be q' d show ?thesis by blast
qed

section \<open>The retry loop of \<^verbatim>\<open>create_cursor\<close>\<close>


lemma connect_tokens_append: "connect_tokens (xs @ ys) = connect_tokens xs @ connect_tokens ys"
  by (induction xs rule: connect_tokens.induct) simp_all

lemma attempts_made_append: "attempts_made (xs @ ys) = attempts_made xs + attempts_made ys"
  by (simp add: attempts_made_def)

lemma token_requests_append: "token_requests (xs @ ys) = token_requests xs + token_requests ys"
  by (simp add: token_requests_def)

lemma config_sql_Some:
  assumes "config_sql env self tr = (Some t, tr0)"
  shows "tr0 = tr @ [app_event env, EvAcquireToken [''https://database.windows.net//.default'']]"
  using assms
  by (auto simp: config_sql_def config_sql_try_def app_event_def Let_def
      split: option.splits sum.splits prod.splits)


lemma connect_attempt_snd:
  "\<exists>one. snd (connect_attempt env cs ts key a tr) = tr @ one \<and> attempts_made one = 1 \<and>
     sleeps one = [] \<and> connect_tokens one = [ts] \<and> token_requests one = 0"
  by (simp add: connect_attempt_def Let_def attempts_made_def token_requests_def split: sum.splits)











lemma retry_loop_tokens:
  "\<exists>new. snd (retry_loop env cs ts key delay a n tr) = tr @ new \<and>
         connect_tokens new = replicate (attempts_made new) ts \<and>
         token_requests new = 0 \<and> attempts_made new \<le> n"
proof (induction n arbitrary: a tr)
  case 0
  have "snd (retry_loop env cs ts key delay a 0 tr) = tr @ []" by simp
  moreover have "connect_tokens [] = replicate (attempts_made []) ts" "token_requests [] = 0"
    "attempts_made [] \<le> 0"
    by (simp_all add: attempts_made_def token_requests_def)
  ultimately show ?case by blast
next
  case (Suc n)
  obtain r tr1 where ca: "connect_attempt env cs ts key a tr = (r, tr1)"
    by (cases "connect_attempt env cs ts key a tr")
  from connect_attempt_snd [of env cs ts key a tr] ca obtain one where
    one: "tr1 = tr @ one" "attempts_made one = 1" "sleeps one = []"
      "connect_tokens one = [ts]" "token_requests one = 0"
    by auto
  let ?P = "\<lambda>new. snd (retry_loop env cs ts key delay a (Suc n) tr) = tr @ new \<and>
         connect_tokens new = replicate (attempts_made new) ts \<and>
         token_requests new = 0 \<and> attempts_made new \<le> Suc n"
  have stop: "?P (one @ extra)"
    if "snd (retry_loop env cs ts key delay a (Suc n) tr) = tr1 @ extra"
      and "attempts_made extra = 0" and "connect_tokens extra = []" and "token_requests extra = 0"
    for extra
    using that one
    by (simp add: attempts_made_append connect_tokens_append token_requests_append)
  show ?case
  proof (cases r)
    case (Inr p)
    have "snd (retry_loop env cs ts key delay a (Suc n) tr) = tr1 @ []"
      using ca Inr by simp
    from stop [OF this] show ?thesis
      by (auto simp: attempts_made_def token_requests_def)
  next
    case (Inl e)
    show ?thesis
    proof (cases "is_operational e \<and> str_contains ''Login timeout expired'' (exn_str e) \<and> 0 \<le> delay")
      case True
      let ?w = "EvLogWarning (''Attempt '' @ str_int (int a + 1) @ '' failed, retrying in ''
              @ str_int delay @ '' seconds...'')"
      have step: "retry_loop env cs ts key delay a (Suc n) tr
          = retry_loop env cs ts key delay (Suc a) n (tr1 @ [?w, EvSleep delay])"
        using ca Inl True by (simp add: time_sleep_def)
      from Suc.IH [of "Suc a" "tr1 @ [?w, EvSleep delay]"] obtain new where
        new: "snd (retry_loop env cs ts key delay (Suc a) n (tr1 @ [?w, EvSleep delay]))
                = (tr1 @ [?w, EvSleep delay]) @ new"
          "connect_tokens new = replicate (attempts_made new) ts"
          "token_requests new = 0" "attempts_made new \<le> n"
        by blast
      have "?P (one @ [?w, EvSleep delay] @ new)"
        using step new one
        by (simp add: attempts_made_append connect_tokens_append token_requests_append)
           (simp add: attempts_made_def token_requests_def)
      then show ?thesis by blast
    next
      case False
      have "\<exists>extra. snd (retry_loop env cs ts key delay a (Suc n) tr) = tr1 @ extra \<and>
              attempts_made extra = 0 \<and> connect_tokens extra = [] \<and> token_requests extra = 0"
      proof (cases "is_operational e")
        case op: True
        show ?thesis
        proof (cases "str_contains ''Login timeout expired'' (exn_str e)")
          case to: True
          with False op have neg: "delay < 0" by simp
          let ?w = "EvLogWarning (''Attempt '' @ str_int (int a + 1) @ '' failed, retrying in ''
              @ str_int delay @ '' seconds...'')"
          have "snd (retry_loop env cs ts key delay a (Suc n) tr) = tr1 @ [?w]"
            using ca Inl op to neg by (simp add: time_sleep_def)
          then show ?thesis
            by (auto simp: attempts_made_def token_requests_def)
        next
          case nto: False
          have "snd (retry_loop env cs ts key delay a (Suc n) tr)
                  = tr1 @ [EvLogError (''Operational error: '' @ exn_str e)]"
            using ca Inl op nto by simp
          then show ?thesis
            by (auto simp: attempts_made_def token_requests_def)
        qed
      next
        case nop: False
        have "snd (retry_loop env cs ts key delay a (Suc n) tr) = tr1 @ []"
          using ca Inl nop by simp
        then show ?thesis
          by (auto simp: attempts_made_def token_requests_def)
      qed
      then obtain extra where
        "snd (retry_loop env cs ts key delay a (Suc n) tr) = tr1 @ extra"
        "attempts_made extra = 0" "connect_tokens extra = []" "token_requests extra = 0"
        by blast
      from stop [OF this] show ?thesis by blast
    qed
  qed
qed

section \<open>Claim C10: a failure of the identity provider\<close>

lemma config_sql_None:
  assumes "new_app env = Some e \<or>
           new_app env = None \<and> acquire_token_for_client env (token_requests tr) = Inl e"
  shows "config_sql env self tr
           = (None, tr @ idp_calls env
                @ [EvLogError (''Error configuring SQL connection: '' @ exn_str e)])"
  using assms
  by (auto simp: config_sql_def config_sql_try_def idp_calls_def app_event_def Let_def
      token_requests_def)

text \<open>
  Claim C10. When the identity provider raises, either in the constructor
  \<^verbatim>\<open>ConfidentialClientApplication(...)\<close> or in \<^verbatim>\<open>acquire_token_for_client\<close>, \<^verbatim>\<open>config_sql\<close>
  logs the exception and returns \<^verbatim>\<open>None\<close>, and \<^verbatim>\<open>create_cursor\<close>, with any retry bound and
  delay, raises the \<^verbatim>\<open>TypeError\<close> of the failed unpacking to its caller, having made no
  connection attempt.
\<close>

theorem identity_failure_propagates:
  assumes "new_app env = Some e \<or>
           new_app env = None \<and> acquire_token_for_client env (token_requests tr) = Inl e"
  shows "config_sql env self tr
           = (None, tr @ idp_calls env
                @ [EvLogError (''Error configuring SQL connection: '' @ exn_str e)]) \<and>
         create_cursor env self max_retries delay tr
           = (Inl (TypeError ''cannot unpack non-iterable NoneType object''),
              tr @ idp_calls env
                @ [EvLogError (''Error configuring SQL connection: '' @ exn_str e)]) \<and>
         attempts_made (idp_calls env
                @ [EvLogError (''Error configuring SQL connection: '' @ exn_str e)]) = 0"
proof -
  note c = config_sql_None [OF assms, of self]
  have "create_cursor env self max_retries delay tr
           = (Inl (TypeError ''cannot unpack non-iterable NoneType object''),
              tr @ idp_calls env
                @ [EvLogError (''Error configuring SQL connection: '' @ exn_str e)])"
    by (simp add: create_cursor_def c)
  moreover have "attempts_made (idp_calls env
                @ [EvLogError (''Error configuring SQL connection: '' @ exn_str e)]) = 0"
    by (simp add: attempts_made_def idp_calls_def app_event_def split: option.splits)
  ultimately show ?thesis using c by blast
qed

text \<open>
  The claim at an identity provider that refuses the token request.
\<close>

theorem identity_failure_propagates_witness:
  "config_sql env_no_idp self0 []
     = (None, [EvNewApp ''client'' ''https://login.microsoftonline.com/tenant'' ''secret'',
               EvAcquireToken [''https://database.windows.net//.default''],
               EvLogError ''Error configuring SQL connection: connection refused'']) \<and>
   create_cursor env_no_idp self0 3 5 []
     = (Inl (TypeError ''cannot unpack non-iterable NoneType object''),
        [EvNewApp ''client'' ''https://login.microsoftonline.com/tenant'' ''secret'',
         EvAcquireToken [''https://database.windows.net//.default''],
         EvLogError ''Error configuring SQL connection: connection refused''])"
proof -
  have h: "new_app env_no_idp = Some (DriverError ''connection refused'') \<or>
           new_app env_no_idp = None \<and>
           acquire_token_for_client env_no_idp (token_requests [])
             = Inl (DriverError ''connection refused'')"
    by (simp add: env_no_idp_def env_ok_def)
  from identity_failure_propagates [OF h, of self0 3 5] show ?thesis
    by (simp add: idp_calls_def app_event_def env_no_idp_def env_ok_def)
qed

section \<open>Claim C4: the retry policy\<close>

lemma create_cursor_loop:
  assumes "config_sql env self tr = (Some (cs, ts, key), tr0)"
  shows "create_cursor env self max_retries delay tr =
     (case retry_loop env cs ts key delay 0 (nat max_retries) tr0 of
        (Some r, tr1) \<Rightarrow> (r, tr1)
      | (None, tr1) \<Rightarrow>
          (Inl (OperationalError ''Maximum retry attempts reached''),
           tr1 @ [EvLogError ''Maximum retry attempts reached'']))"
  by (simp add: create_cursor_def assms)





lemma str_int_1: "str_int 1 = ''1''"
  by (simp add: str_int_def str_nat.simps digit_char_def)



lemma str_int_5: "str_int 5 = ''5''"
  by (simp add: str_int_def str_nat.simps digit_char_def)


lemma config_sql_env_connect:
  "config_sql (env_ok\<lparr>connect := f\<rparr>) self0 [] = (Some (cs0, [2, 0, 0, 0, 65, 0], 1256), tr0_ok)"
  by (simp add: config_sql_def config_sql_try_def env_ok_def self0_def cs0_def tr0_ok_def
      token_requests_def encode_token_def bytes_utf8_def utf8_char_def is_surrogate_def
      expand_token_def struct_pack_i_def conn_string_def SQL_COPT_SS_ACCESS_TOKEN_def Let_def)

lemma config_sql_env_retry:
  "config_sql env_retry self0 []
     = (Some (''DRIVER={ODBC Driver 18 for SQL Server};SERVER=srv;DATABASE=db;ENCRYPT=NO'',
              [2, 0, 0, 0, 65, 0], 1256),
        [EvNewApp ''client'' ''https://login.microsoftonline.com/tenant'' ''secret'',
         EvAcquireToken [''https://database.windows.net//.default'']])"
  using config_sql_env_connect [of "\<lambda>i. if i = 0 then Inl (OperationalError ''[HYT00] Login timeout expired'')
                          else Inr (Conn i)"]
  by (simp add: env_retry_def cs0_def tr0_ok_def)

lemma create_cursor_env_retry:
  "create_cursor env_retry self0 3 5 []
     = (Inr (Conn 1, Cursor 1),
        [EvNewApp ''client'' ''https://login.microsoftonline.com/tenant'' ''secret'',
         EvAcquireToken [''https://database.windows.net//.default''],
         EvConnect ''DRIVER={ODBC Driver 18 for SQL Server};SERVER=srv;DATABASE=db;ENCRYPT=NO''
           1256 [2, 0, 0, 0, 65, 0],
         EvLogWarning ''Attempt 1 failed, retrying in 5 seconds...'',
         EvSleep 5,
         EvConnect ''DRIVER={ODBC Driver 18 for SQL Server};SERVER=srv;DATABASE=db;ENCRYPT=NO''
           1256 [2, 0, 0, 0, 65, 0],
         EvCursor (Conn 1)])"
  unfolding create_cursor_def config_sql_env_retry
  by (simp add: numeral_3_eq_3 connect_attempt_def
      time_sleep_def str_int_1 str_int_5 Let_def env_retry_def env_ok_def)




section \<open>Claim C9: one token request per call\<close>

lemma config_sql_Some_token:
  assumes "config_sql env self tr = (Some (cs, ts, key), tr0)"
  shows "\<exists>token access_token.
           acquire_token_for_client env (token_requests tr) = Inr token \<and>
           map_of token ''access_token'' = Some access_token \<and>
           encode_token (host_byteorder env) access_token = Inr ts"
  using assms
  by (auto simp: config_sql_def config_sql_try_def Let_def token_requests_def
      split: option.splits sum.splits prod.splits)

text \<open>
  Claim C9, as amended. A call of \<^verbatim>\<open>create_cursor\<close> whose token configuration succeeds
  asks the identity provider for a token exactly once, before the first connection
  attempt; every connection attempt of the call presents the encoding of that one token,
  and no attempt is preceded by a new request.
\<close>

theorem token_requested_once_per_call:
  assumes "config_sql env self tr = (Some (cs, ts, key), tr0)"
  shows "\<exists>token access_token rest.
           acquire_token_for_client env (token_requests tr) = Inr token \<and>
           map_of token ''access_token'' = Some access_token \<and>
           encode_token (host_byteorder env) access_token = Inr ts \<and>
           snd (create_cursor env self max_retries delay tr)
             = tr @ [app_event env, EvAcquireToken [''https://database.windows.net//.default'']]
                  @ rest \<and>
           token_requests rest = 0 \<and>
           connect_tokens rest = replicate (attempts_made rest) ts \<and>
           attempts_made rest \<le> nat max_retries"
proof -
  note tr0 = config_sql_Some [OF assms]
  from retry_loop_tokens [of env cs ts key delay 0 "nat max_retries" tr0]
  obtain new where new:
    "snd (retry_loop env cs ts key delay 0 (nat max_retries) tr0) = tr0 @ new"
    "connect_tokens new = replicate (attempts_made new) ts"
    "token_requests new = 0" "attempts_made new \<le> nat max_retries"
    by blast
  obtain r tr1 where rl: "retry_loop env cs ts key delay 0 (nat max_retries) tr0 = (r, tr1)"
    by (cases "retry_loop env cs ts key delay 0 (nat max_retries) tr0")
  with new(1) have tr1: "tr1 = tr0 @ new" by simp
  have "\<exists>rest. snd (create_cursor env self max_retries delay tr) = tr0 @ rest \<and>
          token_requests rest = 0 \<and> connect_tokens rest = replicate (attempts_made rest) ts \<and>
          attempts_made rest \<le> nat max_retries"
  proof (cases r)
    case None
    have "snd (create_cursor env self max_retries delay tr)
            = tr0 @ (new @ [EvLogError ''Maximum retry attempts reached''])"
      by (simp add: create_cursor_loop [OF assms] rl None tr1)
    moreover have "token_requests (new @ [EvLogError ''Maximum retry attempts reached'']) = 0"
      using new(3) by (simp add: token_requests_def)
    moreover have "attempts_made (new @ [EvLogError ''Maximum retry attempts reached''])
                     = attempts_made new"
      by (simp add: attempts_made_def)
    moreover have "connect_tokens (new @ [EvLogError ''Maximum retry attempts reached''])
                     = connect_tokens new"
      by (simp add: connect_tokens_append)
    ultimately show ?thesis using new(2,4) by metis
  next
    case (Some x)
    have "snd (create_cursor env self max_retries delay tr) = tr0 @ new"
      by (simp add: create_cursor_loop [OF assms] rl Some tr1)
    with new(2,3,4) show ?thesis by blast
  qed
  then obtain rest where rest:
    "snd (create_cursor env self max_retries delay tr) = tr0 @ rest"
    "token_requests rest = 0" "connect_tokens rest = replicate (attempts_made rest) ts"
    "attempts_made rest \<le> nat max_retries"
    by blast
  from rest(1) have "snd (create_cursor env self max_retries delay tr)
      = tr @ [app_event env, EvAcquireToken [''https://database.windows.net//.default'']] @ rest"
    by (simp add: tr0)
  with config_sql_Some_token [OF assms] rest(2,3,4) show ?thesis by blast
qed

text \<open>
  The amended claim at a connector that times out once and then succeeds: two attempts,
  both with the token of the one request.
\<close>

theorem token_requested_once_per_call_witness:
  "\<exists>rest. acquire_token_for_client env_retry (token_requests []) = Inr [(''access_token'', [65])] \<and>
     encode_token (host_byteorder env_retry) [65] = Inr [2, 0, 0, 0, 65, 0] \<and>
     snd (create_cursor env_retry self0 3 5 [])
       = [] @ [app_event env_retry, EvAcquireToken [''https://database.windows.net//.default'']]
            @ rest \<and>
     token_requests rest = 0 \<and> attempts_made rest = 2 \<and>
     connect_tokens rest = [[2, 0, 0, 0, 65, 0], [2, 0, 0, 0, 65, 0]]"
proof -
  have c2: "config_sql env_retry self0 [] = (Some (cs0, [2, 0, 0, 0, 65, 0], 1256), tr0_ok)"
    unfolding env_retry_def by (rule config_sql_env_connect)
  from token_requested_once_per_call [OF c2, of 3 5]
  obtain token access_token rest where h:
    "acquire_token_for_client env_retry (token_requests []) = Inr token"
    "map_of token ''access_token'' = Some access_token"
    "encode_token (host_byteorder env_retry) access_token = Inr [2, 0, 0, 0, 65, 0]"
    "snd (create_cursor env_retry self0 3 5 [])
       = [] @ [app_event env_retry, EvAcquireToken [''https://database.windows.net//.default'']]
            @ rest"
    "token_requests rest = 0"
    "connect_tokens rest = replicate (attempts_made rest) [2, 0, 0, 0, 65, 0]"
    by blast
  have rest: "rest =
     [EvConnect ''DRIVER={ODBC Driver 18 for SQL Server};SERVER=srv;DATABASE=db;ENCRYPT=NO''
           1256 [2, 0, 0, 0, 65, 0],
         EvLogWarning ''Attempt 1 failed, retrying in 5 seconds...'',
         EvSleep 5,
         EvConnect ''DRIVER={ODBC Driver 18 for SQL Server};SERVER=srv;DATABASE=db;ENCRYPT=NO''
           1256 [2, 0, 0, 0, 65, 0],
         EvCursor (Conn 1)]"
    using h(4) unfolding create_cursor_env_retry
    by (simp add: app_event_def env_retry_def env_ok_def)
  have a: "attempts_made rest = 2" unfolding rest by (simp add: attempts_made_def)
  from h(1,2) have tok: "token = [(''access_token'', [65])]" "access_token = [65]"
    by (auto simp: env_retry_def env_ok_def token_requests_def)
  from h(1) h(3) h(4) h(5) h(6) a show ?thesis
    unfolding tok by (simp add: numeral_2_eq_2)
qed

text \<open>
  Claim C9 as stated fails. With a connector that times out once and then succeeds, and
  an identity provider that would issue a different token at every request, the call
  makes two connection attempts and one token request, and the second attempt presents
  the token of the first.
\<close>

theorem token_per_attempt_counterexample:
  "attempts_made (snd (create_cursor env_retry self0 3 5 [])) = 2 \<and>
   token_requests (snd (create_cursor env_retry self0 3 5 [])) = 1 \<and>
   connect_tokens (snd (create_cursor env_retry self0 3 5 []))
     = [[2, 0, 0, 0, 65, 0], [2, 0, 0, 0, 65, 0]] \<and>
   acquire_token_for_client env_retry 0 = Inr [(''access_token'', [65])] \<and>
   acquire_token_for_client env_retry 1 = Inr [(''access_token'', [66])] \<and>
   encode_token (host_byteorder env_retry) [65] = Inr [2, 0, 0, 0, 65, 0] \<and>
   encode_token (host_byteorder env_retry) [66] = Inr [2, 0, 0, 0, 66, 0]"
  by (simp add: create_cursor_env_retry attempts_made_def token_requests_def)
     (simp add: env_retry_def env_ok_def encode_token_def bytes_utf8_def utf8_char_def is_surrogate_def expand_token_def
        struct_pack_i_def Let_def)

section \<open>The events of an acquisition and of the query\<close>

lemma acquisition_event_quiet:
  "acquisition_event ev \<Longrightarrow> \<not> is_close ev \<and> \<not> is_commit ev \<and> \<not> is_rollback ev"
  by (cases ev) simp_all

lemma acquisition_events_quiet:
  assumes "list_all acquisition_event xs"
  shows "closes xs = [] \<and> commits xs = [] \<and> rollbacks xs = []"
  using assms acquisition_event_quiet
  by (auto simp: closes_def commits_def rollbacks_def list_all_iff filter_empty_conv)

lemma config_sql_events:
  "\<exists>new. snd (config_sql env self tr) = tr @ new \<and> list_all acquisition_event new"
  by (simp add: config_sql_def config_sql_try_def Let_def
      split: option.splits sum.splits prod.splits)

lemma connect_attempt_events:
  "\<exists>new. snd (connect_attempt env cs ts key a tr) = tr @ new \<and> list_all acquisition_event new"
  by (simp add: connect_attempt_def Let_def split: sum.splits)

lemma retry_loop_events:
  "\<exists>new. snd (retry_loop env cs ts key delay a n tr) = tr @ new \<and>
         list_all acquisition_event new"
proof (induction n arbitrary: a tr)
  case 0
  show ?case by simp
next
  case (Suc n)
  obtain r tr1 where ca: "connect_attempt env cs ts key a tr = (r, tr1)"
    by (cases "connect_attempt env cs ts key a tr")
  from connect_attempt_events [of env cs ts key a tr] ca obtain one where
    one: "tr1 = tr @ one" "list_all acquisition_event one"
    by auto
  let ?w = "EvLogWarning (''Attempt '' @ str_int (int a + 1) @ '' failed, retrying in ''
              @ str_int delay @ '' seconds...'')"
  from Suc.IH [of "Suc a" "tr1 @ [?w, EvSleep delay]"] obtain new where
    new: "snd (retry_loop env cs ts key delay (Suc a) n (tr1 @ [?w, EvSleep delay]))
            = (tr1 @ [?w, EvSleep delay]) @ new"
      "list_all acquisition_event new"
    by blast
  have "snd (retry_loop env cs ts key delay a (Suc n) tr) = tr @ one
        \<or> snd (retry_loop env cs ts key delay a (Suc n) tr) = tr @ one @ [?w]
        \<or> snd (retry_loop env cs ts key delay a (Suc n) tr)
            = tr @ one @ [EvLogError (''Operational error: '' @ exn_str (projl r))]
        \<or> snd (retry_loop env cs ts key delay a (Suc n) tr) = tr @ one @ [?w, EvSleep delay] @ new"
    using ca one(1) new(1)
    by (cases r) (simp_all add: time_sleep_def)
  moreover have "list_all acquisition_event (one @ [?w])"
    "list_all acquisition_event (one @ [EvLogError (''Operational error: '' @ exn_str (projl r))])"
    "list_all acquisition_event (one @ [?w, EvSleep delay] @ new)"
    using one(2) new(2) by simp_all
  ultimately show ?case using one(2) by metis
qed

lemma create_cursor_events:
  "\<exists>new. snd (create_cursor env self max_retries delay tr) = tr @ new \<and>
         list_all acquisition_event new"
proof (cases "config_sql env self tr")
  case (Pair cfg tr0)
  from config_sql_events [of env self tr] Pair obtain new0 where
    new0: "tr0 = tr @ new0" "list_all acquisition_event new0"
    by auto
  show ?thesis
  proof (cases cfg)
    case None
    with Pair new0 show ?thesis by (simp add: create_cursor_def)
  next
    case (Some t)
    obtain cs ts key where t: "t = (cs, ts, key)" by (cases t)
    obtain r tr1 where rl: "retry_loop env cs ts key delay 0 (nat max_retries) tr0 = (r, tr1)"
      by (cases "retry_loop env cs ts key delay 0 (nat max_retries) tr0")
    from retry_loop_events [of env cs ts key delay 0 "nat max_retries" tr0] rl obtain new where
      new: "tr1 = tr0 @ new" "list_all acquisition_event new"
      by auto
    have "snd (create_cursor env self max_retries delay tr) = tr @ new0 @ new \<or>
          snd (create_cursor env self max_retries delay tr)
            = tr @ new0 @ new @ [EvLogError ''Maximum retry attempts reached'']"
      using Pair Some t rl new(1) new0(1)
      by (cases r) (simp_all add: create_cursor_def)
    moreover have "list_all acquisition_event (new0 @ new)"
      "list_all acquisition_event (new0 @ new @ [EvLogError ''Maximum retry attempts reached''])"
      using new0(2) new(2) by simp_all
    ultimately show ?thesis by metis
  qed
qed

lemma batch_values_iff:
  "batch_values v \<longleftrightarrow> truthy v \<and> is_list v \<and> list_all is_tuple (elements v)"
  by (induction v rule: batch_values.induct) auto

lemma run_query_eq:
  "run_query env cu query data_values tr
     = (query_outcome env data_values, tr @ [query_event cu query data_values])"
  by (auto simp: run_query_def query_event_def query_outcome_def batch_values_iff)

lemma closes_append: "closes (xs @ ys) = closes xs @ closes ys"
  by (simp add: closes_def)

lemma perform_db_operation_try_unbound:
  assumes "create_cursor env self 3 5 tr = (Inl e, tr1)"
  shows "perform_db_operation_try env self query data_values has_return needs_commit tr
           = (Inl e, None, tr1)"
  by (simp add: perform_db_operation_try_def assms)

lemma perform_db_operation_try_bound:
  assumes "create_cursor env self 3 5 tr = (Inr (c, cu), tr1)"
  shows "\<exists>r body. perform_db_operation_try env self query data_values has_return needs_commit tr
                  = (r, Some (c, cu), tr1 @ [query_event cu query data_values] @ body) \<and>
                closes body = []"
  by (auto simp: perform_db_operation_try_def assms run_query_eq fetch_result_def
        conn_commit_def Let_def closes_def
      split: sum.splits option.splits)

lemma perform_db_operation_try_success:
  assumes "perform_db_operation_try env self query data_values has_return needs_commit tr
             = (Inr v, locals, tr2)"
  shows "\<exists>c cu tr1.
           create_cursor env self 3 5 tr = (Inr (c, cu), tr1) \<and> locals = Some (c, cu) \<and>
           query_outcome env data_values = Inr () \<and>
           tr2 = tr1 @ [query_event cu query data_values]
                   @ success_events has_return needs_commit c cu \<and>
           (if has_return then
              \<exists>rows cols. fetchall env = Inr rows \<and> description env = Some cols \<and>
                 (needs_commit \<longrightarrow> commit env = None) \<and>
                 v = RowsAndColumns rows (map col_name cols)
            else commit env = None \<and> v = Marker ''Success'' ''Operation successful'')"
proof -
  note defs = perform_db_operation_try_def run_query_eq fetch_result_def conn_commit_def
    Let_def success_events_def outcome_def
  obtain r0 tr1 where cc0: "create_cursor env self 3 5 tr = (r0, tr1)"
    by (cases "create_cursor env self 3 5 tr")
  show ?thesis
  proof (cases r0)
    case (Inl e)
    with cc0 assms show ?thesis by (simp add: perform_db_operation_try_def)
  next
    case (Inr p)
    obtain c cu where p: "p = (c, cu)" by (cases p)
    from cc0 Inr p have cc: "create_cursor env self 3 5 tr = (Inr (c, cu), tr1)" by simp
    show ?thesis
    proof (cases "query_outcome env data_values")
      case (Inl e)
      with assms cc show ?thesis by (simp add: defs)
    next
      case qok: (Inr u)
      show ?thesis
      proof (cases has_return)
        case hr: True
        show ?thesis
        proof (cases "fetchall env")
          case (Inl e)
          with assms cc qok hr show ?thesis by (simp add: defs)
        next
          case rows: (Inr rows)
          show ?thesis
          proof (cases "description env")
            case None
            with assms cc qok hr rows show ?thesis by (simp add: defs)
          next
            case cols: (Some cols)
            show ?thesis
            proof (cases needs_commit)
              case nc: True
              show ?thesis
              proof (cases "commit env")
                case None
                with assms cc qok hr rows cols nc show ?thesis by (simp add: defs)
              next
                case (Some e)
                with assms cc qok hr rows cols nc show ?thesis by (simp add: defs)
              qed
            next
              case False
              with assms cc qok hr rows cols show ?thesis by (simp add: defs)
            qed
          qed
        qed
      next
        case nhr: False
        show ?thesis
        proof (cases "commit env")
          case None
          with assms cc qok nhr show ?thesis by (simp add: defs)
        next
          case (Some e)
          with assms cc qok nhr show ?thesis by (simp add: defs)
        qed
      qed
    qed
  qed
qed

lemma query_event_kind:
  "\<not> is_close (query_event cu query data_values) \<and>
   \<not> is_commit (query_event cu query data_values) \<and>
   \<not> is_rollback (query_event cu query data_values)"
  by (simp add: query_event_def)

lemma steps_run_events: "set (fst (steps_run xs)) \<subseteq> fst ` set xs"
  by (induction xs rule: steps_run.induct) (auto split: prod.splits)

lemma body_steps_events:
  "ev \<in> fst ` set (body_steps env query data_values has_return needs_commit c cu)
     \<Longrightarrow> \<not> is_close ev \<and> \<not> is_rollback ev"
  using query_event_kind [of cu query data_values]
  by (auto simp: body_steps_def split: if_splits)

lemma steps_run_closes:
  "closes (fst (steps_run (body_steps env query data_values has_return needs_commit c cu))) = []"
  using steps_run_events [of "body_steps env query data_values has_return needs_commit c cu"]
    body_steps_events [of _ env query data_values has_return needs_commit c cu]
  by (auto simp: closes_def filter_empty_conv)

lemma perform_db_operation_try_steps_run:
  assumes cc: "create_cursor env self 3 5 tr = (Inr (c, cu), tr1)"
  shows "\<exists>r. perform_db_operation_try env self query data_values has_return needs_commit tr
               = (r, Some (c, cu),
                  tr1 @ fst (steps_run (body_steps env query data_values has_return
                                          needs_commit c cu))) \<and>
             (case snd (steps_run (body_steps env query data_values has_return
                                     needs_commit c cu)) of
                Some e \<Rightarrow> r = Inl e
              | None \<Rightarrow>
                  if has_return then
                    \<exists>rows cols. fetchall env = Inr rows \<and> description env = Some cols \<and>
                      r = Inr (RowsAndColumns rows (map col_name cols))
                  else r = Inr (Marker ''Success'' ''Operation successful''))"
proof -
  define qo where "qo = (if batch_values data_values then executemany env else execute env)"
  have q: "query_outcome env data_values = outcome qo"
    by (simp add: query_outcome_def qo_def)
  have b: "body_steps env query data_values has_return needs_commit c cu =
     (query_event cu query data_values, qo) #
     (if has_return then
        [(EvFetchAll cu, case fetchall env of Inl e \<Rightarrow> Some e | Inr rows \<Rightarrow> None),
         (EvDescription cu,
          case description env of None \<Rightarrow> Some none_not_iterable | Some cols \<Rightarrow> None)]
        @ (if needs_commit then [(EvCommit c, commit env)] else [])
      else [(EvCommit c, commit env)])"
    by (simp add: body_steps_def qo_def)
  note defs = perform_db_operation_try_def cc run_query_eq q fetch_result_def conn_commit_def
    Let_def outcome_def
  show ?thesis
  proof (cases qo)
    case (Some e)
    then show ?thesis unfolding b by (simp add: defs)
  next
    case qok: None
    show ?thesis
    proof (cases has_return)
      case hr: True
      show ?thesis
      proof (cases "fetchall env")
        case (Inl e)
        with qok hr show ?thesis unfolding b by (simp add: defs)
      next
        case rows: (Inr rows)
        show ?thesis
        proof (cases "description env")
          case None
          with qok hr rows show ?thesis unfolding b by (simp add: defs)
        next
          case cols: (Some cols)
          show ?thesis
          proof (cases needs_commit)
            case nc: True
            show ?thesis
            proof (cases "commit env")
              case None
              with qok hr rows cols nc show ?thesis unfolding b by (simp add: defs)
            next
              case (Some e)
              with qok hr rows cols nc show ?thesis unfolding b by (simp add: defs)
            qed
          next
            case False
            with qok hr rows cols show ?thesis unfolding b by (simp add: defs)
          qed
        qed
      qed
    next
      case nhr: False
      show ?thesis
      proof (cases "commit env")
        case None
        with qok nhr show ?thesis unfolding b by (simp add: defs)
      next
        case (Some e)
        with qok nhr show ?thesis unfolding b by (simp add: defs)
      qed
    qed
  qed
qed

lemma perform_db_operation_try_steps:
  assumes cc: "create_cursor env self 3 5 tr = (Inr (c, cu), tr1)"
    and st: "steps_run (body_steps env query data_values has_return needs_commit c cu)
               = (evs, failure)"
  shows "\<exists>r. perform_db_operation_try env self query data_values has_return needs_commit tr
               = (r, Some (c, cu), tr1 @ evs) \<and>
             (case failure of
                Some e \<Rightarrow> r = Inl e
              | None \<Rightarrow>
                  if has_return then
                    \<exists>rows cols. fetchall env = Inr rows \<and> description env = Some cols \<and>
                      r = Inr (RowsAndColumns rows (map col_name cols))
                  else r = Inr (Marker ''Success'' ''Operation successful''))"
  using perform_db_operation_try_steps_run [OF cc, of query data_values has_return needs_commit]
  unfolding st by simp

text \<open>
  \<^verbatim>\<open>perform_db_operation\<close> in closed form. What the \<^verbatim>\<open>finally\<close> block leaves of the pending
  return value: an exception of \<^verbatim>\<open>cursor.close()\<close> or of \<^verbatim>\<open>conn.close()\<close> replaces it.
\<close>

lemma perform_db_operation_unbound:
  assumes "create_cursor env self 3 5 tr = (Inl e, tr1)"
  shows "perform_db_operation env self query data_values has_return needs_commit tr
           = (Inr (Marker ''Error'' (''Error performing query: '' @ exn_str e)),
              tr1 @ [EvLogError (''Error performing query: '' @ exn_str e)])"
  by (simp add: perform_db_operation_def perform_db_operation_try_unbound [OF assms]
      perform_db_operation_except_def perform_db_operation_finally_def)

lemma perform_db_operation_after_try:
  assumes "perform_db_operation_try env self query data_values has_return needs_commit tr
             = (r, Some (c, cu), tr2)"
  shows "perform_db_operation env self query data_values has_return needs_commit tr
           = ((case cursor_close env of
                 Some e' \<Rightarrow> Inl e'
               | None \<Rightarrow>
                   (case conn_close env of
                      Some e' \<Rightarrow> Inl e'
                    | None \<Rightarrow>
                        (case r of
                           Inl e \<Rightarrow> Inr (Marker ''Error'' (''Error performing query: '' @ exn_str e))
                         | Inr v \<Rightarrow> Inr v))),
              tr2 @ (case r of
                       Inl e \<Rightarrow> [EvLogError (''Error performing query: '' @ exn_str e)]
                     | Inr v \<Rightarrow> [])
                  @ [EvCloseCursor cu]
                  @ (if cursor_close env = None then [EvCloseConn c] else []))"
  by (simp add: perform_db_operation_def assms perform_db_operation_except_def
      perform_db_operation_finally_def split: sum.splits option.splits)

lemma perform_db_operation_bound:
  assumes cc: "create_cursor env self 3 5 tr = (Inr (c, cu), tr1)"
    and st: "steps_run (body_steps env query data_values has_return needs_commit c cu)
               = (evs, failure)"
  shows "\<exists>pending.
           perform_db_operation env self query data_values has_return needs_commit tr
             = ((case cursor_close env of
                   Some e' \<Rightarrow> Inl e'
                 | None \<Rightarrow> (case conn_close env of Some e' \<Rightarrow> Inl e' | None \<Rightarrow> Inr pending)),
                tr1 @ evs
                  @ (case failure of
                       Some e \<Rightarrow> [EvLogError (''Error performing query: '' @ exn_str e)]
                     | None \<Rightarrow> [])
                  @ [EvCloseCursor cu]
                  @ (if cursor_close env = None then [EvCloseConn c] else [])) \<and>
           (case failure of
              Some e \<Rightarrow> pending = Marker ''Error'' (''Error performing query: '' @ exn_str e)
            | None \<Rightarrow>
                if has_return then
                  \<exists>rows cols. fetchall env = Inr rows \<and> description env = Some cols \<and>
                    pending = RowsAndColumns rows (map col_name cols)
                else pending = Marker ''Success'' ''Operation successful'')"
proof -
  from perform_db_operation_try_steps [OF cc st] obtain r where
    t: "perform_db_operation_try env self query data_values has_return needs_commit tr
          = (r, Some (c, cu), tr1 @ evs)"
    and r: "case failure of
                Some e \<Rightarrow> r = Inl e
              | None \<Rightarrow>
                  if has_return then
                    \<exists>rows cols. fetchall env = Inr rows \<and> description env = Some cols \<and>
                      r = Inr (RowsAndColumns rows (map col_name cols))
                  else r = Inr (Marker ''Success'' ''Operation successful'')"
    by blast
  note run = perform_db_operation_after_try [OF t]
  show ?thesis
  proof (cases failure)
    case (Some e)
    with r have "r = Inl e" by simp
    with run Some show ?thesis
      by (intro exI [of _ "Marker ''Error'' (''Error performing query: '' @ exn_str e)"]) (simp split: option.splits)
  next
    case None
    show ?thesis
    proof (cases has_return)
      case True
      with r None obtain rows cols where
        "fetchall env = Inr rows" "description env = Some cols"
        "r = Inr (RowsAndColumns rows (map col_name cols))"
        by auto
      with run None True show ?thesis
        by (intro exI [of _ "RowsAndColumns rows (map col_name cols)"]) (simp split: option.splits)
    next
      case False
      with r None have "r = Inr (Marker ''Success'' ''Operation successful'')" by simp
      with run None False show ?thesis
        by (intro exI [of _ "Marker ''Success'' ''Operation successful''"]) (simp split: option.splits)
    qed
  qed
qed

lemma config_sql_ok:
  assumes "TENANT_ID env = ''tenant''" and "CLIENT_ID env = ''client''"
    and "CLIENT_CREDENTIAL env = ''secret''" and "host_byteorder env = LittleEndian"
    and "new_app env = None"
    and "acquire_token_for_client env 0 = Inr [(''access_token'', [65])]"
  shows "config_sql env self0 [] = (Some (cs0, [2, 0, 0, 0, 65, 0], 1256), tr0_ok)"
  using assms
  by (simp add: config_sql_def config_sql_try_def self0_def cs0_def tr0_ok_def
      token_requests_def encode_token_def bytes_utf8_def utf8_char_def is_surrogate_def expand_token_def struct_pack_i_def
      conn_string_def SQL_COPT_SS_ACCESS_TOKEN_def Let_def)

lemma create_cursor_first_attempt:
  assumes "config_sql env self tr = (Some (cs, ts, key), tr0)"
    and "connect env 0 = Inr c" and "new_cursor env 0 = Inr cu"
  shows "create_cursor env self 3 5 tr = (Inr (c, cu), tr0 @ [EvConnect cs key ts, EvCursor c])"
  using assms
  by (simp add: create_cursor_def numeral_3_eq_3 connect_attempt_def Let_def)

lemma create_cursor_env_ok:
  "create_cursor env_ok self0 3 5 [] = (Inr (Conn 0, Cursor 0), tr1_ok)"
proof -
  have "config_sql env_ok self0 [] = (Some (cs0, [2, 0, 0, 0, 65, 0], 1256), tr0_ok)"
    by (rule config_sql_ok) (simp_all add: env_ok_def)
  from create_cursor_first_attempt [OF this, of "Conn 0" "Cursor 0"] show ?thesis
    by (simp add: env_ok_def tr1_ok_def)
qed


lemma create_cursor_like_env_ok:
  assumes "TENANT_ID env = ''tenant''" and "CLIENT_ID env = ''client''"
    and "CLIENT_CREDENTIAL env = ''secret''" and "host_byteorder env = LittleEndian"
    and "new_app env = None"
    and "acquire_token_for_client env 0 = Inr [(''access_token'', [65])]"
    and "connect env 0 = Inr (Conn 0)" and "new_cursor env 0 = Inr (Cursor 0)"
  shows "create_cursor env self0 3 5 [] = (Inr (Conn 0, Cursor 0), tr1_ok)"
proof -
  have "config_sql env self0 [] = (Some (cs0, [2, 0, 0, 0, 65, 0], 1256), tr0_ok)"
    by (rule config_sql_ok) (fact assms)+
  from create_cursor_first_attempt [OF this assms(7,8)] show ?thesis
    by (simp add: tr1_ok_def)
qed

lemma create_cursor_env_cursor_close_fails:
  "create_cursor env_cursor_close_fails self0 3 5 [] = (Inr (Conn 0, Cursor 0), tr1_ok)"
  by (rule create_cursor_like_env_ok) (simp_all add: env_cursor_close_fails_def env_ok_def)


lemma create_cursor_env_timeouts:
  "create_cursor env_timeouts self0 3 5 []
     = (Inl (OperationalError ''Maximum retry attempts reached''), tr_timeouts)"
proof -
  have c: "config_sql env_timeouts self0 [] = (Some (cs0, [2, 0, 0, 0, 65, 0], 1256), tr0_ok)"
    by (rule config_sql_ok) (simp_all add: env_timeouts_def env_ok_def)
  show ?thesis
    unfolding create_cursor_def c
    by (simp add: numeral_3_eq_3 connect_attempt_def time_sleep_def Let_def tr_timeouts_def
        str_int_def str_nat.simps digit_char_def env_timeouts_def env_ok_def)
qed

lemma steps_run_env_cursor_close_fails:
  "steps_run (body_steps env_cursor_close_fails ''SELECT id, name FROM t'' PNone True False
                (Conn 0) (Cursor 0))
     = ([EvExecute (Cursor 0) ''SELECT id, name FROM t'', EvFetchAll (Cursor 0),
         EvDescription (Cursor 0)], None)"
  by (simp add: body_steps_def query_event_def env_cursor_close_fails_def env_ok_def)


lemma perform_db_operation_env_cursor_close_fails:
  "perform_db_operation env_cursor_close_fails self0 ''SELECT id, name FROM t'' PNone True
       False []
     = (Inl (DriverError ''cursor is busy''),
        tr1_ok @ [EvExecute (Cursor 0) ''SELECT id, name FROM t'', EvFetchAll (Cursor 0),
                  EvDescription (Cursor 0), EvCloseCursor (Cursor 0)])"
  using perform_db_operation_bound
          [OF create_cursor_env_cursor_close_fails steps_run_env_cursor_close_fails]
  by (auto simp: env_cursor_close_fails_def env_ok_def)


section \<open>Claim C3: what \<^verbatim>\<open>perform_db_operation\<close> returns and what it raises\<close>






section \<open>Claim C7: the commit policy of \<^verbatim>\<open>perform_db_operation\<close>\<close>

lemma success_events_commits:
  "commits (success_events has_return needs_commit c cu)
     = (if has_return \<and> \<not> needs_commit then [] else [EvCommit c])"
  by (simp add: success_events_def commits_def)

text \<open>
  Claim C7. On the success path of \<^verbatim>\<open>perform_db_operation\<close> (the body of the \<^verbatim>\<open>try\<close>
  completes) the events after the acquisition are: the query; then, with \<^verbatim>\<open>has_return\<close>
  true, \<^verbatim>\<open>fetchall\<close>, the read of \<^verbatim>\<open>cursor.description\<close> and a commit exactly when
  \<^verbatim>\<open>needs_commit\<close> is true, the commit after the fetch and before the method returns; with
  \<^verbatim>\<open>has_return\<close> false, one commit, whatever \<^verbatim>\<open>needs_commit\<close> is; then the close of the
  cursor and, when that returned, the close of the connection. The acquisition commits
  nothing. The value of the body is what the method returns when the two closes return.
\<close>

theorem perform_db_operation_commit_policy:
  assumes "perform_db_operation_try env self query data_values has_return needs_commit tr
             = (Inr v, locals, tr2)"
  shows "\<exists>c cu acq.
           create_cursor env self 3 5 tr = (Inr (c, cu), tr @ acq) \<and> commits acq = [] \<and>
           perform_db_operation env self query data_values has_return needs_commit tr
             = ((case cursor_close env of
                   Some e \<Rightarrow> Inl e
                 | None \<Rightarrow> (case conn_close env of Some e \<Rightarrow> Inl e | None \<Rightarrow> Inr v)),
                tr @ acq @ [query_event cu query data_values]
                   @ (if has_return then
                        [EvFetchAll cu, EvDescription cu]
                          @ (if needs_commit then [EvCommit c] else [])
                      else [EvCommit c])
                   @ [EvCloseCursor cu]
                   @ (if cursor_close env = None then [EvCloseConn c] else [])) \<and>
           commits (acq @ [query_event cu query data_values]
                      @ success_events has_return needs_commit c cu
                      @ [EvCloseCursor cu]
                      @ (if cursor_close env = None then [EvCloseConn c] else []))
             = (if has_return \<and> \<not> needs_commit then [] else [EvCommit c])"
proof -
  from perform_db_operation_try_success [OF assms] obtain c cu tr1 where
    h: "create_cursor env self 3 5 tr = (Inr (c, cu), tr1)" "locals = Some (c, cu)"
       "tr2 = tr1 @ [query_event cu query data_values]
                @ success_events has_return needs_commit c cu"
    by blast
  from create_cursor_events [of env self 3 5 tr] h(1) obtain acq where
    acq: "tr1 = tr @ acq" "list_all acquisition_event acq"
    by auto
  from acquisition_events_quiet [OF acq(2)] have q: "commits acq = []" by simp
  from assms h(2)
  have t: "perform_db_operation_try env self query data_values has_return needs_commit tr
             = (Inr v, Some (c, cu), tr2)"
    by simp
  have "perform_db_operation env self query data_values has_return needs_commit tr
          = ((case cursor_close env of
                Some e \<Rightarrow> Inl e
              | None \<Rightarrow> (case conn_close env of Some e \<Rightarrow> Inl e | None \<Rightarrow> Inr v)),
             tr2 @ [EvCloseCursor cu]
                 @ (if cursor_close env = None then [EvCloseConn c] else []))"
    by (simp add: perform_db_operation_after_try [OF t] split: option.splits)
  then have run: "perform_db_operation env self query data_values has_return needs_commit tr
             = ((case cursor_close env of
                   Some e \<Rightarrow> Inl e
                 | None \<Rightarrow> (case conn_close env of Some e \<Rightarrow> Inl e | None \<Rightarrow> Inr v)),
                tr @ acq @ [query_event cu query data_values]
                   @ (if has_return then
                        [EvFetchAll cu, EvDescription cu]
                          @ (if needs_commit then [EvCommit c] else [])
                      else [EvCommit c])
                   @ [EvCloseCursor cu]
                   @ (if cursor_close env = None then [EvCloseConn c] else []))"
    by (simp add: h(3) acq(1) success_events_def)
  have "commits (acq @ [query_event cu query data_values]
                      @ success_events has_return needs_commit c cu
                      @ [EvCloseCursor cu]
                      @ (if cursor_close env = None then [EvCloseConn c] else []))
          = commits (success_events has_return needs_commit c cu)"
    using q by (simp add: commits_def query_event_kind)
  with success_events_commits [of has_return needs_commit c cu]
  have cm: "commits (acq @ [query_event cu query data_values]
                      @ success_events has_return needs_commit c cu
                      @ [EvCloseCursor cu]
                      @ (if cursor_close env = None then [EvCloseConn c] else []))
             = (if has_return \<and> \<not> needs_commit then [] else [EvCommit c])"
    by simp
  from h(1) acq(1) q run cm show ?thesis by blast
qed

lemma perform_db_operation_try_env_ok_flags:
  "perform_db_operation_try env_ok self0 query PNone has_return needs_commit []
     = (Inr (if has_return then RowsAndColumns [[PInt 1, PStr ''a'']] [''id'', ''name'']
             else Marker ''Success'' ''Operation successful''),
        Some (Conn 0, Cursor 0),
        tr1_ok @ [EvExecute (Cursor 0) query]
          @ success_events has_return needs_commit (Conn 0) (Cursor 0))"
  unfolding perform_db_operation_try_def create_cursor_env_ok
  by (simp add: run_query_def fetch_result_def conn_commit_def outcome_def env_ok_def Let_def
      success_events_def)

text \<open>
  The claim at a driver that answers every call, for three settings of the flags: rows
  without a commit, rows with a commit after the fetch, and no rows with the commit that
  is made whatever \<^verbatim>\<open>needs_commit\<close> is.
\<close>

theorem perform_db_operation_commit_policy_witness:
  "perform_db_operation env_ok self0 ''SELECT id, name FROM t'' PNone True False []
     = (Inr (RowsAndColumns [[PInt 1, PStr ''a'']] [''id'', ''name'']),
        tr1_ok @ [EvExecute (Cursor 0) ''SELECT id, name FROM t'', EvFetchAll (Cursor 0),
                  EvDescription (Cursor 0), EvCloseCursor (Cursor 0), EvCloseConn (Conn 0)]) \<and>
   perform_db_operation env_ok self0 ''SELECT id, name FROM t'' PNone True True []
     = (Inr (RowsAndColumns [[PInt 1, PStr ''a'']] [''id'', ''name'']),
        tr1_ok @ [EvExecute (Cursor 0) ''SELECT id, name FROM t'', EvFetchAll (Cursor 0),
                  EvDescription (Cursor 0), EvCommit (Conn 0), EvCloseCursor (Cursor 0),
                  EvCloseConn (Conn 0)]) \<and>
   perform_db_operation env_ok self0 ''UPDATE t SET x = 1'' PNone False False []
     = (Inr (Marker ''Success'' ''Operation successful''),
        tr1_ok @ [EvExecute (Cursor 0) ''UPDATE t SET x = 1'', EvCommit (Conn 0),
                  EvCloseCursor (Cursor 0), EvCloseConn (Conn 0)])"
proof -
  have k: "cursor_close env_ok = None" "conn_close env_ok = None"
    by (simp_all add: env_ok_def)
  have run: "perform_db_operation env_ok self0 query PNone has_return needs_commit []
      = (Inr (if has_return then RowsAndColumns [[PInt 1, PStr ''a'']] [''id'', ''name'']
              else Marker ''Success'' ''Operation successful''),
         tr1_ok @ [EvExecute (Cursor 0) query]
          @ (if has_return then
               [EvFetchAll (Cursor 0), EvDescription (Cursor 0)]
                 @ (if needs_commit then [EvCommit (Conn 0)] else [])
             else [EvCommit (Conn 0)])
          @ [EvCloseCursor (Cursor 0), EvCloseConn (Conn 0)])"
    for query has_return needs_commit
  proof -
    from perform_db_operation_commit_policy
           [OF perform_db_operation_try_env_ok_flags [of query has_return needs_commit]]
    obtain c cu acq where
      h: "create_cursor env_ok self0 3 5 [] = (Inr (c, cu), [] @ acq)"
         "perform_db_operation env_ok self0 query PNone has_return needs_commit []
             = ((case cursor_close env_ok of
                   Some e \<Rightarrow> Inl e
                 | None \<Rightarrow>
                     (case conn_close env_ok of
                        Some e \<Rightarrow> Inl e
                      | None \<Rightarrow>
                          Inr (if has_return
                               then RowsAndColumns [[PInt 1, PStr ''a'']] [''id'', ''name'']
                               else Marker ''Success'' ''Operation successful''))),
                [] @ acq @ [query_event cu query PNone]
                   @ (if has_return then
                        [EvFetchAll cu, EvDescription cu]
                          @ (if needs_commit then [EvCommit c] else [])
                      else [EvCommit c])
                   @ [EvCloseCursor cu]
                   @ (if cursor_close env_ok = None then [EvCloseConn c] else []))"
      by blast
    from h(1) have "c = Conn 0" "cu = Cursor 0" "acq = tr1_ok"
      by (simp_all add: create_cursor_env_ok)
    with h(2) show ?thesis by (simp add: query_event_def k)
  qed
  from run [of "''SELECT id, name FROM t''" True False]
    run [of "''SELECT id, name FROM t''" True True]
    run [of "''UPDATE t SET x = 1''" False False]
  show ?thesis by simp
qed

section \<open>The transactional executor in closed form\<close>

lemma atomic_acquire_events:
  "\<exists>acq. snd (atomic_acquire env self conn cursor tr) = tr @ acq \<and>
         list_all acquisition_event acq"
  using create_cursor_events [of env self 3 5 tr]
  by (cases conn; cases cursor) (simp_all add: atomic_acquire_def)

lemma atomic_acquire_None: "atomic_acquire env self None cursor tr = create_cursor env self 3 5 tr"
  by (simp add: atomic_acquire_def)

lemma atomic_try_not_acquired:
  assumes "atomic_acquire env self conn cursor tr = (Inl e, tr1)"
  shows "atomic_try env self query data_values has_return close_cursor close_conn conn cursor tr
           = (Inl e, conn, cursor, tr1)"
  by (simp add: atomic_try_def assms)

lemma atomic_try_acquired:
  assumes "atomic_acquire env self conn cursor tr = (Inr (c, cu), tr1)"
  shows "atomic_try env self query data_values has_return close_cursor close_conn conn cursor tr
           = (case query_outcome env data_values of
                Inl e \<Rightarrow> (Inl e, Some c, Some cu, tr1 @ [query_event cu query data_values])
              | Inr u \<Rightarrow>
                  if has_return then
                    (case fetchall env of
                       Inl e \<Rightarrow>
                         (Inl e, Some c, Some cu,
                          tr1 @ [query_event cu query data_values, EvFetchAll cu])
                     | Inr rows \<Rightarrow>
                         (case description env of
                            None \<Rightarrow>
                              (Inl none_not_iterable, Some c, Some cu,
                               tr1 @ [query_event cu query data_values, EvFetchAll cu,
                                      EvDescription cu])
                          | Some cols \<Rightarrow>
                              (Inr (return_shape True close_cursor close_conn rows
                                      (map col_name cols) c cu),
                               Some c, Some cu,
                               tr1 @ [query_event cu query data_values, EvFetchAll cu,
                                      EvDescription cu])))
                  else (Inr (return_shape False close_cursor close_conn [] [] c cu),
                        Some c, Some cu, tr1 @ [query_event cu query data_values]))"
  by (simp add: atomic_try_def assms run_query_eq fetch_result_def Let_def return_shape_def
      split: sum.splits option.splits)

text \<open>
  The closes of the \<^verbatim>\<open>finally\<close> block with a connection and a cursor at hand: the cursor's
  if \<^verbatim>\<open>close_cursor\<close>, then the connection's if \<^verbatim>\<open>close_conn\<close>, unless the cursor's close
  was called and raised.
\<close>

lemma atomic_close_acquired:
  "atomic_close env close_cursor close_conn (Some c) (Some cu) tr
     = ((if close_cursor \<and> cursor_close env \<noteq> None then cursor_close env
         else if close_conn then conn_close env else None),
        tr @ (if close_cursor then [EvCloseCursor cu] else [])
           @ (if close_conn \<and> (close_cursor \<longrightarrow> cursor_close env = None)
              then [EvCloseConn c] else []))"
  by (auto simp: atomic_close_def split: option.splits)

lemma atomic_finally_acquired:
  assumes "needs_commit \<longrightarrow> commit env = None"
  shows "atomic_finally env needs_commit close_cursor close_conn (Some c) (Some cu) tr
     = ((if close_cursor \<and> cursor_close env \<noteq> None then cursor_close env
         else if close_conn then conn_close env else None),
        tr @ (if needs_commit then [EvPrint ''Committing transaction'', EvCommit c] else [])
           @ (if close_cursor then [EvCloseCursor cu] else [])
           @ (if close_conn \<and> (close_cursor \<longrightarrow> cursor_close env = None)
              then [EvCloseConn c] else []))"
  using assms
  by (auto simp: atomic_finally_def atomic_commit_def atomic_close_acquired)

lemma atomic_no_connection:
  assumes "create_cursor env self 3 5 tr = (Inl e, tr1)"
  shows "perform_atomic_db_operation env self query data_values has_return close_cursor close_conn
           None None needs_commit tr
         = (Inl (none_has_no_attribute (if needs_commit then ''commit'' else ''rollback'')),
            tr1 @ (if needs_commit then [EvPrint ''Committing transaction''] else []))"
proof -
  have a: "atomic_acquire env self None None tr = (Inl e, tr1)"
    by (simp add: atomic_acquire_None assms)
  show ?thesis
    by (simp add: perform_atomic_db_operation_def atomic_try_not_acquired [OF a]
        atomic_except_def atomic_finally_def atomic_commit_def atomic_close_def)
qed

text \<open>
  With a connection at hand, and a rollback, a commit and closes that do not raise
  themselves, a failure of the query runs as claim C2 describes: rollback, log, commit in
  the cleanup if \<^verbatim>\<open>needs_commit\<close>, the closes the flags ask for, and the exception of the
  query goes to the caller.
\<close>

lemma atomic_failure_with_connection:
  assumes "atomic_acquire env self conn cursor tr = (Inr (c, cu), tr1)"
    and "query_outcome env data_values = Inl e"
    and "rollback env = None" and "commit env = None"
    and "cursor_close env = None" and "conn_close env = None"
  shows "perform_atomic_db_operation env self query data_values has_return close_cursor close_conn
           conn cursor needs_commit tr
         = (Inl e,
            tr1 @ [query_event cu query data_values, EvRollback c,
                   EvLogError (''Error in atomic operation: '' @ exn_str e)]
                @ (if needs_commit then [EvPrint ''Committing transaction'', EvCommit c] else [])
                @ (if close_cursor then [EvCloseCursor cu] else [])
                @ (if close_conn then [EvCloseConn c] else []))"
proof -
  from assms(4) have cm: "needs_commit \<longrightarrow> commit env = None" by simp
  show ?thesis
    by (simp add: perform_atomic_db_operation_def atomic_try_acquired [OF assms(1)] assms(2,3,5,6)
        atomic_except_def atomic_finally_acquired [OF cm])
qed

lemma atomic_acquire_env_ok:
  "atomic_acquire env_ok self0 None None [] = (Inr (Conn 0, Cursor 0), tr1_ok)"
  by (simp add: atomic_acquire_None create_cursor_env_ok)

lemma perform_atomic_not_acquired:
  assumes "atomic_acquire env self conn cursor tr = (Inl e, tr1)"
  shows "\<exists>e'. fst (perform_atomic_db_operation env self query data_values has_return
                      close_cursor close_conn conn cursor needs_commit tr) = Inl e'"
  by (simp add: perform_atomic_db_operation_def atomic_try_not_acquired [OF assms]
      atomic_except_def atomic_finally_def atomic_commit_def
      split: option.splits prod.splits)

section \<open>Claim C5: the return shapes of \<^verbatim>\<open>perform_atomic_db_operation\<close>\<close>

lemma perform_atomic_acquired:
  assumes "atomic_acquire env self conn cursor tr = (Inr (c, cu), tr1)"
  shows "(fst (perform_atomic_db_operation env self query data_values has_return
                 close_cursor close_conn conn cursor needs_commit tr) = Inr v
          \<longleftrightarrow> query_outcome env data_values = Inr () \<and>
              (needs_commit \<longrightarrow> commit env = None) \<and>
              (close_cursor \<longrightarrow> cursor_close env = None) \<and>
              (close_conn \<longrightarrow> conn_close env = None) \<and>
              (if has_return then
                 \<exists>rows cols. fetchall env = Inr rows \<and> description env = Some cols \<and>
                   v = (if \<not> close_cursor \<and> \<not> close_conn then Rows4 rows (map col_name cols) c cu
                        else Rows2 rows (map col_name cols))
               else v = (if \<not> close_cursor \<and> \<not> close_conn then Success3 c cu else Success1))) \<and>
         (\<exists>rest. snd (perform_atomic_db_operation env self query data_values has_return
                        close_cursor close_conn conn cursor needs_commit tr)
                  = tr1 @ [query_event cu query data_values] @ rest)"
proof -
  note defs = perform_atomic_db_operation_def atomic_try_acquired [OF assms]
    atomic_except_def atomic_finally_def atomic_commit_def atomic_close_acquired return_shape_def
  show ?thesis
  proof (cases "query_outcome env data_values")
    case (Inl e)
    then show ?thesis by (simp add: defs split: option.splits)
  next
    case qok: (Inr u)
    show ?thesis
    proof (cases has_return)
      case hr: True
      show ?thesis
      proof (cases "fetchall env")
        case (Inl e)
        with qok hr show ?thesis by (simp add: defs split: option.splits)
      next
        case rows: (Inr rows)
        show ?thesis
        proof (cases "description env")
          case None
          with qok hr rows show ?thesis by (simp add: defs split: option.splits)
        next
          case cols: (Some cols)
          show ?thesis
          proof (cases needs_commit)
            case nc: True
            show ?thesis
            proof (cases "commit env")
              case None
              with qok hr rows cols nc show ?thesis by (auto simp: defs split: option.splits)
            next
              case (Some e)
              with qok hr rows cols nc show ?thesis by (simp add: defs)
            qed
          next
            case False
            with qok hr rows cols show ?thesis by (auto simp: defs split: option.splits)
          qed
        qed
      qed
    next
      case nhr: False
      show ?thesis
      proof (cases needs_commit)
        case nc: True
        show ?thesis
        proof (cases "commit env")
          case None
          with qok nhr nc show ?thesis by (auto simp: defs split: option.splits)
        next
          case (Some e)
          with qok nhr nc show ?thesis by (simp add: defs)
        qed
      next
        case False
        with qok nhr show ?thesis by (auto simp: defs split: option.splits)
      qed
    qed
  qed
qed

text \<open>
  Claim C5. \<^verbatim>\<open>perform_atomic_db_operation\<close> returns a value \<open>v\<close> exactly when the connection
  and cursor are at hand (given by the caller, or acquired), the query, and with
  \<^verbatim>\<open>has_return\<close> the fetch and the read of the description, do not raise, and the commit
  of the cleanup and the closes that the flags ask for do not raise. Then \<open>v\<close> is one of
  four shapes: with \<^verbatim>\<open>has_return\<close> the
  rows and column names, followed by the connection and the cursor exactly when both
  close flags are false; without it \<^verbatim>\<open>"Success"\<close>, in a triple with the connection and the
  cursor exactly when both close flags are false. The connection and cursor returned are
  the ones acquired, and the cursor is the one the query was executed on.
\<close>

theorem atomic_return_shapes:
  "(fst (perform_atomic_db_operation env self query data_values has_return
           close_cursor close_conn conn cursor needs_commit tr) = Inr v
    \<longleftrightarrow> (\<exists>c cu tr1.
           atomic_acquire env self conn cursor tr = (Inr (c, cu), tr1) \<and>
           (\<exists>rest. snd (perform_atomic_db_operation env self query data_values has_return
                          close_cursor close_conn conn cursor needs_commit tr)
                    = tr1 @ [query_event cu query data_values] @ rest) \<and>
           query_outcome env data_values = Inr () \<and>
           (needs_commit \<longrightarrow> commit env = None) \<and>
           (close_cursor \<longrightarrow> cursor_close env = None) \<and>
           (close_conn \<longrightarrow> conn_close env = None) \<and>
           (if has_return then
              \<exists>rows cols. fetchall env = Inr rows \<and> description env = Some cols \<and>
                v = (if \<not> close_cursor \<and> \<not> close_conn then Rows4 rows (map col_name cols) c cu
                     else Rows2 rows (map col_name cols))
            else v = (if \<not> close_cursor \<and> \<not> close_conn then Success3 c cu else Success1))))"
proof -
  obtain r0 tr1 where a0: "atomic_acquire env self conn cursor tr = (r0, tr1)"
    by (cases "atomic_acquire env self conn cursor tr")
  show ?thesis
  proof (cases r0)
    case (Inl e)
    with a0 have a: "atomic_acquire env self conn cursor tr = (Inl e, tr1)" by simp
    from perform_atomic_not_acquired [OF a, of query data_values has_return close_cursor
        close_conn needs_commit] a
    show ?thesis by auto
  next
    case (Inr p)
    obtain c cu where p: "p = (c, cu)" by (cases p)
    with a0 Inr have a: "atomic_acquire env self conn cursor tr = (Inr (c, cu), tr1)" by simp
    from perform_atomic_acquired [OF a, of query data_values has_return close_cursor close_conn
        needs_commit v] a
    show ?thesis by auto
  qed
qed

lemma atomic_env_ok_success:
  "\<exists>c cu tr1.
     atomic_acquire env_ok self0 None None [] = (Inr (c, cu), tr1) \<and>
     (\<exists>rest. snd (perform_atomic_db_operation env_ok self0 query PNone has_return
                    close_cursor close_conn None None True [])
              = tr1 @ [query_event cu query PNone] @ rest) \<and>
     query_outcome env_ok PNone = Inr () \<and>
     (True \<longrightarrow> commit env_ok = None) \<and>
     (close_cursor \<longrightarrow> cursor_close env_ok = None) \<and>
     (close_conn \<longrightarrow> conn_close env_ok = None) \<and>
     (if has_return then
        \<exists>rows cols. fetchall env_ok = Inr rows \<and> description env_ok = Some cols \<and>
          return_shape has_return close_cursor close_conn [[PInt 1, PStr ''a'']] [''id'', ''name'']
              (Conn 0) (Cursor 0)
            = (if \<not> close_cursor \<and> \<not> close_conn then Rows4 rows (map col_name cols) c cu
               else Rows2 rows (map col_name cols))
      else return_shape has_return close_cursor close_conn [[PInt 1, PStr ''a'']]
              [''id'', ''name''] (Conn 0) (Cursor 0)
            = (if \<not> close_cursor \<and> \<not> close_conn then Success3 c cu else Success1))"
proof -
  from perform_atomic_acquired [OF atomic_acquire_env_ok]
  have "\<exists>rest. snd (perform_atomic_db_operation env_ok self0 query PNone has_return
                    close_cursor close_conn None None True [])
              = tr1_ok @ [query_event (Cursor 0) query PNone] @ rest"
    by blast
  moreover have "query_outcome env_ok PNone = Inr ()" "commit env_ok = None"
    "cursor_close env_ok = None" "conn_close env_ok = None"
    "fetchall env_ok = Inr [[PInt 1, PStr ''a'']]"
    "description env_ok = Some [Column ''id'' ''int'', Column ''name'' ''str'']"
    by (simp_all add: query_outcome_def outcome_def env_ok_def)
  ultimately show ?thesis
    using atomic_acquire_env_ok by (auto simp: return_shape_def)
qed

text \<open>
  The four shapes at a driver that answers every call.
\<close>

theorem atomic_return_shapes_witness:
  "fst (perform_atomic_db_operation env_ok self0 ''SELECT id, name FROM t'' PNone True
          True True None None True [])
     = Inr (Rows2 [[PInt 1, PStr ''a'']] [''id'', ''name'']) \<and>
   fst (perform_atomic_db_operation env_ok self0 ''SELECT id, name FROM t'' PNone True
          False False None None True [])
     = Inr (Rows4 [[PInt 1, PStr ''a'']] [''id'', ''name''] (Conn 0) (Cursor 0)) \<and>
   fst (perform_atomic_db_operation env_ok self0 ''UPDATE t SET x = 1'' PNone False
          True True None None True [])
     = Inr Success1 \<and>
   fst (perform_atomic_db_operation env_ok self0 ''UPDATE t SET x = 1'' PNone False
          False False None None True [])
     = Inr (Success3 (Conn 0) (Cursor 0))"
  using atomic_return_shapes [THEN iffD2, OF atomic_env_ok_success,
          of "''SELECT id, name FROM t''" True True True]
        atomic_return_shapes [THEN iffD2, OF atomic_env_ok_success,
          of "''SELECT id, name FROM t''" True False False]
        atomic_return_shapes [THEN iffD2, OF atomic_env_ok_success,
          of "''UPDATE t SET x = 1''" False True True]
        atomic_return_shapes [THEN iffD2, OF atomic_env_ok_success,
          of "''UPDATE t SET x = 1''" False False False]
  by (simp add: return_shape_def)

section \<open>Claim C8: the dispatch on \<^verbatim>\<open>data_values\<close>\<close>

lemma batch_values_cases:
  "batch_values v \<longleftrightarrow> (\<exists>x xs. v = PList (x # xs) \<and> list_all is_tuple (x # xs))"
  by (induction v rule: batch_values.induct) simp_all

lemma perform_db_operation_query:
  assumes "create_cursor env self 3 5 tr = (Inr (c, cu), tr1)"
  shows "\<exists>rest. snd (perform_db_operation env self query data_values has_return needs_commit tr)
                = tr1 @ [query_event cu query data_values] @ rest"
proof -
  from perform_db_operation_try_bound [OF assms, of query data_values has_return needs_commit]
  obtain r body where
    b: "perform_db_operation_try env self query data_values has_return needs_commit tr
          = (r, Some (c, cu), tr1 @ [query_event cu query data_values] @ body)"
    by blast
  show ?thesis
    by (simp add: perform_db_operation_after_try [OF b])
qed

text \<open>
  Claim C8, as amended. In both executors the first call on the cursor is chosen as
  follows: a non-empty list whose elements are all tuples goes to \<^verbatim>\<open>executemany\<close> with
  the query and the list; every other truthy value (a single tuple, a tuple of tuples, a
  list with an element that is not a tuple) goes to \<^verbatim>\<open>execute\<close> with the query and the
  value; a falsy value (\<^verbatim>\<open>None\<close>, the empty list, the empty tuple) goes to \<^verbatim>\<open>execute\<close>
  with the query alone.
\<close>

theorem data_values_dispatch:
  "(create_cursor env self 3 5 tr = (Inr (c, cu), tr1) \<longrightarrow>
      (\<exists>rest. snd (perform_db_operation env self query data_values has_return needs_commit tr)
               = tr1 @ [query_event cu query data_values] @ rest)) \<and>
   (atomic_acquire env self conn cursor tr = (Inr (c, cu), tr1) \<longrightarrow>
      (\<exists>rest. snd (perform_atomic_db_operation env self query data_values has_return
                     close_cursor close_conn conn cursor needs_commit tr)
               = tr1 @ [query_event cu query data_values] @ rest)) \<and>
   (batch_values data_values \<longleftrightarrow>
      (\<exists>x xs. data_values = PList (x # xs) \<and> list_all is_tuple (x # xs))) \<and>
   (batch_values data_values \<longrightarrow>
      query_event cu query data_values = EvExecuteMany cu query data_values) \<and>
   (truthy data_values \<and> \<not> batch_values data_values \<longrightarrow>
      query_event cu query data_values = EvExecuteParams cu query data_values) \<and>
   (\<not> truthy data_values \<longrightarrow> query_event cu query data_values = EvExecute cu query) \<and>
   \<not> truthy PNone \<and> \<not> truthy (PList []) \<and> \<not> truthy (PTuple [])"
proof -
  have "batch_values data_values \<Longrightarrow> truthy data_values"
    by (simp add: batch_values_iff)
  then have "\<not> truthy data_values \<longrightarrow> query_event cu query data_values = EvExecute cu query"
    by (auto simp: query_event_def)
  moreover have "batch_values data_values \<longrightarrow>
      query_event cu query data_values = EvExecuteMany cu query data_values"
    "truthy data_values \<and> \<not> batch_values data_values \<longrightarrow>
      query_event cu query data_values = EvExecuteParams cu query data_values"
    by (simp_all add: query_event_def)
  moreover have "\<not> truthy PNone \<and> \<not> truthy (PList []) \<and> \<not> truthy (PTuple [])"
    by simp
  ultimately show ?thesis
    using perform_db_operation_query [of env self tr c cu tr1 query data_values has_return needs_commit]
      perform_atomic_acquired [of env self conn cursor tr c cu tr1 query data_values has_return
        close_cursor close_conn needs_commit]
      batch_values_cases [of data_values]
    by blast
qed

lemma perform_db_operation_env_ok:
  "perform_db_operation env_ok self0 query data_values False False []
     = (Inr (Marker ''Success'' ''Operation successful''),
        tr1_ok @ [query_event (Cursor 0) query data_values, EvCommit (Conn 0),
                  EvCloseCursor (Cursor 0), EvCloseConn (Conn 0)])"
  unfolding perform_db_operation_def perform_db_operation_try_def create_cursor_env_ok
  by (simp add: run_query_eq query_outcome_def conn_commit_def outcome_def
      perform_db_operation_finally_def env_ok_def)

lemma perform_atomic_env_ok:
  "perform_atomic_db_operation env_ok self0 query data_values False close_cursor close_conn
       None None True []
     = (Inr (if \<not> close_cursor \<and> \<not> close_conn then Success3 (Conn 0) (Cursor 0) else Success1),
        tr1_ok @ [query_event (Cursor 0) query data_values, EvPrint ''Committing transaction'',
                  EvCommit (Conn 0)]
          @ (if close_cursor then [EvCloseCursor (Cursor 0)] else [])
          @ (if close_conn then [EvCloseConn (Conn 0)] else []))"
  unfolding perform_atomic_db_operation_def atomic_try_acquired [OF atomic_acquire_env_ok]
  by (simp add: query_outcome_def outcome_def return_shape_def atomic_finally_def
      atomic_commit_def atomic_close_def env_ok_def)

text \<open>
  The amended claim at a list of two parameter tuples: both executors call
  \<^verbatim>\<open>executemany\<close>.
\<close>

theorem data_values_dispatch_witness:
  "(\<exists>rest. snd (perform_db_operation env_ok self0 ''INSERT INTO t VALUES (?, ?)'' batch0
                  False True [])
            = tr1_ok @ [EvExecuteMany (Cursor 0) ''INSERT INTO t VALUES (?, ?)'' batch0] @ rest) \<and>
   (\<exists>rest. snd (perform_atomic_db_operation env_ok self0 ''INSERT INTO t VALUES (?, ?)'' batch0
                  False True True None None True [])
            = tr1_ok @ [EvExecuteMany (Cursor 0) ''INSERT INTO t VALUES (?, ?)'' batch0] @ rest)"
proof -
  note d = data_values_dispatch [of env_ok self0 "[]" "Conn 0" "Cursor 0" tr1_ok
      "''INSERT INTO t VALUES (?, ?)''" batch0 False True None None True True]
  have b: "batch_values batch0" by (simp add: batch0_def)
  from d b have q: "query_event (Cursor 0) ''INSERT INTO t VALUES (?, ?)'' batch0
                      = EvExecuteMany (Cursor 0) ''INSERT INTO t VALUES (?, ?)'' batch0"
    by blast
  from d create_cursor_env_ok atomic_acquire_env_ok show ?thesis
    unfolding q by blast
qed

text \<open>
  Claim C8 as stated fails for a sequence of parameter tuples that is a tuple and not a
  list: both executors pass the tuple of tuples to \<^verbatim>\<open>execute\<close> as the parameters of one
  statement, not to \<^verbatim>\<open>executemany\<close>.
\<close>

theorem data_values_dispatch_counterexample:
  "sequence_of_tuples tuples0 \<and>
   perform_db_operation env_ok self0 ''INSERT INTO t VALUES (?, ?)'' tuples0 False False []
     = (Inr (Marker ''Success'' ''Operation successful''),
        tr1_ok @ [EvExecuteParams (Cursor 0) ''INSERT INTO t VALUES (?, ?)'' tuples0,
                  EvCommit (Conn 0), EvCloseCursor (Cursor 0), EvCloseConn (Conn 0)]) \<and>
   perform_atomic_db_operation env_ok self0 ''INSERT INTO t VALUES (?, ?)'' tuples0 False
       True True None None True []
     = (Inr Success1,
        tr1_ok @ [EvExecuteParams (Cursor 0) ''INSERT INTO t VALUES (?, ?)'' tuples0,
                  EvPrint ''Committing transaction'', EvCommit (Conn 0),
                  EvCloseCursor (Cursor 0), EvCloseConn (Conn 0)])"
  by (simp add: perform_db_operation_env_ok perform_atomic_env_ok)
     (simp add: sequence_of_tuples_def tuples0_def query_event_def)

section \<open>Claim C2: a failure with no connection at hand\<close>

text \<open>
  Claim C2 at its failing input: \<^verbatim>\<open>perform_atomic_db_operation(query)\<close> with the default
  \<^verbatim>\<open>conn=None\<close>, \<^verbatim>\<open>cursor=None\<close>, and a connector that always times out, so that
  \<^verbatim>\<open>create_cursor\<close> raises the terminal operational error. The handler calls
  \<^verbatim>\<open>conn.rollback()\<close> on \<^verbatim>\<open>None\<close>, which raises \<^verbatim>\<open>AttributeError\<close>: no rollback reaches the
  driver, the operational error is not logged by the handler and is not the exception
  the caller gets. With \<^verbatim>\<open>needs_commit\<close> true the \<^verbatim>\<open>finally\<close> block then raises a second
  \<^verbatim>\<open>AttributeError\<close> from \<^verbatim>\<open>conn.commit()\<close>.
\<close>

theorem atomic_failure_without_connection:
  "perform_atomic_db_operation env_timeouts self0 ''UPDATE t SET x = 1'' PNone False True True
       None None True []
     = (Inl (none_has_no_attribute ''commit''),
        tr_timeouts @ [EvPrint ''Committing transaction'']) \<and>
   perform_atomic_db_operation env_timeouts self0 ''UPDATE t SET x = 1'' PNone False True True
       None None False []
     = (Inl (none_has_no_attribute ''rollback''), tr_timeouts) \<and>
   rollbacks (tr_timeouts @ [EvPrint ''Committing transaction'']) = [] \<and>
   commits (tr_timeouts @ [EvPrint ''Committing transaction'']) = []"
proof -
  note a = atomic_no_connection [OF create_cursor_env_timeouts]
  have "rollbacks (tr_timeouts @ [EvPrint ''Committing transaction'']) = []"
    "commits (tr_timeouts @ [EvPrint ''Committing transaction'']) = []"
    by (simp_all add: rollbacks_def commits_def tr_timeouts_def tr0_ok_def)
  with a [of "''UPDATE t SET x = 1''" PNone False True True True]
    a [of "''UPDATE t SET x = 1''" PNone False True True False]
  show ?thesis by simp
qed

section \<open>Claim C6: which connections are closed\<close>

lemma perform_db_operation_closes:
  "(create_cursor env self 3 5 tr = (Inr (c, cu), tr1) \<longrightarrow>
      (\<exists>acq body.
         tr1 = tr @ acq \<and> closes acq = [] \<and> closes body = [] \<and>
         snd (perform_db_operation env self query data_values has_return needs_commit tr)
           = tr1 @ body @ [EvCloseCursor cu]
               @ (if cursor_close env = None then [EvCloseConn c] else []))) \<and>
   (create_cursor env self 3 5 tr = (Inl e, tr1) \<longrightarrow>
      (\<exists>acq.
         tr1 = tr @ acq \<and>
         closes (acq @ [EvLogError (''Error performing query: '' @ exn_str e)]) = [] \<and>
         perform_db_operation env self query data_values has_return needs_commit tr
           = (Inr (Marker ''Error'' (''Error performing query: '' @ exn_str e)),
              tr1 @ [EvLogError (''Error performing query: '' @ exn_str e)])))"
proof (intro conjI impI)
  assume cc: "create_cursor env self 3 5 tr = (Inr (c, cu), tr1)"
  from create_cursor_events [of env self 3 5 tr] cc obtain acq where
    acq: "tr1 = tr @ acq" "list_all acquisition_event acq"
    by auto
  from acquisition_events_quiet [OF acq(2)] have q: "closes acq = []" by simp
  obtain evs failure where
    st: "steps_run (body_steps env query data_values has_return needs_commit c cu)
           = (evs, failure)"
    by (cases "steps_run (body_steps env query data_values has_return needs_commit c cu)")
  from steps_run_closes [of env query data_values has_return needs_commit c cu] st
  have e: "closes evs = []" by simp
  let ?log = "case failure of
                Some x \<Rightarrow> [EvLogError (''Error performing query: '' @ exn_str x)]
              | None \<Rightarrow> []"
  from perform_db_operation_bound [OF cc st]
  have "snd (perform_db_operation env self query data_values has_return needs_commit tr)
          = tr1 @ (evs @ ?log) @ [EvCloseCursor cu]
              @ (if cursor_close env = None then [EvCloseConn c] else [])"
    by auto
  moreover have "closes (evs @ ?log) = []"
    using e by (simp add: closes_append) (simp add: closes_def split: option.splits)
  ultimately show "\<exists>acq body.
         tr1 = tr @ acq \<and> closes acq = [] \<and> closes body = [] \<and>
         snd (perform_db_operation env self query data_values has_return needs_commit tr)
           = tr1 @ body @ [EvCloseCursor cu]
               @ (if cursor_close env = None then [EvCloseConn c] else [])"
    using acq(1) q by blast
next
  assume cc: "create_cursor env self 3 5 tr = (Inl e, tr1)"
  from create_cursor_events [of env self 3 5 tr] cc obtain acq where
    acq: "tr1 = tr @ acq" "list_all acquisition_event acq"
    by auto
  from acquisition_events_quiet [OF acq(2)]
  have q: "closes (acq @ [EvLogError (''Error performing query: '' @ exn_str e)]) = []"
    by (simp add: closes_append) (simp add: closes_def)
  from perform_db_operation_unbound [OF cc] acq(1) q show "\<exists>acq.
         tr1 = tr @ acq \<and>
         closes (acq @ [EvLogError (''Error performing query: '' @ exn_str e)]) = [] \<and>
         perform_db_operation env self query data_values has_return needs_commit tr
           = (Inr (Marker ''Error'' (''Error performing query: '' @ exn_str e)),
              tr1 @ [EvLogError (''Error performing query: '' @ exn_str e)])"
    by blast
qed

lemma atomic_except_events:
  "\<exists>h. snd (atomic_except env e conn tr) = tr @ h \<and> closes h = []"
  by (simp add: atomic_except_def closes_def split: option.splits)

lemma atomic_try_acquired_events:
  assumes "atomic_acquire env self conn cursor tr = (Inr (c, cu), tr1)"
  shows "\<exists>r body. atomic_try env self query data_values has_return close_cursor close_conn
                    conn cursor tr = (r, Some c, Some cu, tr1 @ body) \<and> closes body = []"
  by (simp add: atomic_try_acquired [OF assms] closes_def query_event_kind
      split: sum.splits option.splits)

lemma atomic_closes_by_flags:
  assumes a: "atomic_acquire env self conn cursor tr = (Inr (c, cu), tr1)"
    and cm: "needs_commit \<longrightarrow> commit env = None"
  shows "\<exists>body. snd (perform_atomic_db_operation env self query data_values has_return
                      close_cursor close_conn conn cursor needs_commit tr)
                = tr1 @ body @ (if close_cursor then [EvCloseCursor cu] else [])
                      @ (if close_conn \<and> (close_cursor \<longrightarrow> cursor_close env = None)
                         then [EvCloseConn c] else []) \<and>
               closes body = []"
proof -
  from atomic_try_acquired_events [OF a, of query data_values has_return close_cursor close_conn]
  obtain r body where
    t: "atomic_try env self query data_values has_return close_cursor close_conn conn cursor tr
          = (r, Some c, Some cu, tr1 @ body)"
    and body: "closes body = []"
    by blast
  obtain pending tr2 where
    p: "(case r of
           Inl e \<Rightarrow> (case atomic_except env e (Some c) (tr1 @ body) of (e', tr2) \<Rightarrow> (Inl e', tr2))
         | Inr v \<Rightarrow> (Inr v, tr1 @ body)) = (pending, tr2)"
    by (cases "case r of
           Inl e \<Rightarrow> (case atomic_except env e (Some c) (tr1 @ body) of (e', tr2) \<Rightarrow> (Inl e', tr2))
         | Inr v \<Rightarrow> (Inr v, tr1 @ body)")
  have "\<exists>h. tr2 = (tr1 @ body) @ h \<and> closes h = []"
  proof (cases r)
    case (Inl e)
    from atomic_except_events [of env e "Some c" "tr1 @ body"] p Inl show ?thesis
      by (auto split: prod.splits)
  next
    case (Inr v)
    with p have "tr2 = (tr1 @ body) @ []" by simp
    moreover have "closes [] = []" by (simp add: closes_def)
    ultimately show ?thesis by blast
  qed
  then obtain h where h: "tr2 = (tr1 @ body) @ h" "closes h = []" by blast
  let ?k = "if needs_commit then [EvPrint ''Committing transaction'', EvCommit c] else []"
  have k: "closes ?k = []" by (simp add: closes_def)
  have "snd (perform_atomic_db_operation env self query data_values has_return
               close_cursor close_conn conn cursor needs_commit tr)
          = snd (atomic_finally env needs_commit close_cursor close_conn (Some c) (Some cu) tr2)"
    using p by (simp add: perform_atomic_db_operation_def t split: prod.splits option.splits)
  then have "snd (perform_atomic_db_operation env self query data_values has_return
               close_cursor close_conn conn cursor needs_commit tr)
          = tr1 @ (body @ h @ ?k) @ (if close_cursor then [EvCloseCursor cu] else [])
              @ (if close_conn \<and> (close_cursor \<longrightarrow> cursor_close env = None)
                 then [EvCloseConn c] else [])"
    by (simp add: atomic_finally_acquired [OF cm] h(1))
  moreover have "closes (body @ h @ ?k) = []"
    using body h(2) k by (simp add: closes_append)
  ultimately show ?thesis by blast
qed

text \<open>
  Claim C6, as amended. In \<^verbatim>\<open>perform_db_operation\<close>, when \<^verbatim>\<open>create_cursor\<close> returned a
  connection and a cursor, the cursor is closed exactly once on every exit path of the
  \<^verbatim>\<open>try\<close>, and the connection is closed exactly once, right after the cursor, when
  \<^verbatim>\<open>cursor.close()\<close> returned, and not at all when \<^verbatim>\<open>cursor.close()\<close> raised; these are
  the last events of the call and there is no other close. When \<^verbatim>\<open>create_cursor\<close> raised,
  nothing is closed, no new error is raised, and the call returns the error marker.
  \<^verbatim>\<open>perform_atomic_db_operation\<close> closes by its flags: with a connection and a cursor at
  hand and a commit of the cleanup that does not raise, the cursor is closed once exactly
  when \<^verbatim>\<open>close_cursor\<close> is true, and the connection is closed once, after the cursor,
  exactly when \<^verbatim>\<open>close_conn\<close> is true and the close of the cursor was not called or
  returned; there is no other close.
\<close>

theorem connections_released:
  "(create_cursor env self 3 5 tr = (Inr (c, cu), tr1) \<longrightarrow>
      (\<exists>acq body.
         tr1 = tr @ acq \<and> closes acq = [] \<and> closes body = [] \<and>
         snd (perform_db_operation env self query data_values has_return needs_commit tr)
           = tr1 @ body @ [EvCloseCursor cu]
               @ (if cursor_close env = None then [EvCloseConn c] else []))) \<and>
   (create_cursor env self 3 5 tr = (Inl e, tr1) \<longrightarrow>
      (\<exists>acq.
         tr1 = tr @ acq \<and>
         closes (acq @ [EvLogError (''Error performing query: '' @ exn_str e)]) = [] \<and>
         perform_db_operation env self query data_values has_return needs_commit tr
           = (Inr (Marker ''Error'' (''Error performing query: '' @ exn_str e)),
              tr1 @ [EvLogError (''Error performing query: '' @ exn_str e)]))) \<and>
   (atomic_acquire env self conn cursor tr = (Inr (c, cu), tr1) \<and>
    (needs_commit \<longrightarrow> commit env = None) \<longrightarrow>
      (\<exists>acq body.
         tr1 = tr @ acq \<and> closes acq = [] \<and> closes body = [] \<and>
         snd (perform_atomic_db_operation env self query data_values has_return
                close_cursor close_conn conn cursor needs_commit tr)
           = tr1 @ body @ (if close_cursor then [EvCloseCursor cu] else [])
                 @ (if close_conn \<and> (close_cursor \<longrightarrow> cursor_close env = None)
                    then [EvCloseConn c] else [])))"
proof -
  have "\<exists>acq body.
         tr1 = tr @ acq \<and> closes acq = [] \<and> closes body = [] \<and>
         snd (perform_atomic_db_operation env self query data_values has_return
                close_cursor close_conn conn cursor needs_commit tr)
           = tr1 @ body @ (if close_cursor then [EvCloseCursor cu] else [])
                 @ (if close_conn \<and> (close_cursor \<longrightarrow> cursor_close env = None)
                    then [EvCloseConn c] else [])"
    if a: "atomic_acquire env self conn cursor tr = (Inr (c, cu), tr1)"
      and cm: "needs_commit \<longrightarrow> commit env = None"
  proof -
    from atomic_acquire_events [of env self conn cursor tr] a obtain acq where
      acq: "tr1 = tr @ acq" "list_all acquisition_event acq"
      by auto
    from acquisition_events_quiet [OF acq(2)] have "closes acq = []" by simp
    with acq(1) atomic_closes_by_flags [OF a cm, of query data_values has_return
        close_cursor close_conn]
    show ?thesis by blast
  qed
  with perform_db_operation_closes [of env self tr c cu tr1 query data_values has_return
      needs_commit e]
  show ?thesis by blast
qed

text \<open>
  The amended claim at a driver that answers every call, at one whose \<^verbatim>\<open>cursor.close()\<close>
  raises, at a connector that always times out, and at the transactional executor with
  \<^verbatim>\<open>close_conn=False\<close>.
\<close>

theorem connections_released_witness:
  "closes (snd (perform_db_operation env_ok self0 ''UPDATE t SET x = 1'' PNone False False []))
     = [EvCloseCursor (Cursor 0), EvCloseConn (Conn 0)] \<and>
   closes (snd (perform_db_operation env_cursor_close_fails self0 ''UPDATE t SET x = 1'' PNone
                  False False []))
     = [EvCloseCursor (Cursor 0)] \<and>
   perform_db_operation env_timeouts self0 ''UPDATE t SET x = 1'' PNone False False []
     = (Inr (Marker ''Error'' ''Error performing query: Maximum retry attempts reached''),
        tr_timeouts @ [EvLogError ''Error performing query: Maximum retry attempts reached'']) \<and>
   closes (snd (perform_db_operation env_timeouts self0 ''UPDATE t SET x = 1'' PNone False
                  False [])) = [] \<and>
   closes (snd (perform_atomic_db_operation env_ok self0 ''UPDATE t SET x = 1'' PNone False
                  True False None None True [])) = [EvCloseCursor (Cursor 0)]"
proof -
  note ok = connections_released [of env_ok self0 "[]" "Conn 0" "Cursor 0" tr1_ok
      "''UPDATE t SET x = 1''" PNone False False _ None None True False]
  note cf = connections_released [of env_cursor_close_fails self0 "[]" "Conn 0" "Cursor 0" tr1_ok
      "''UPDATE t SET x = 1''" PNone False False _ None None True False]
  note ok' = connections_released [of env_ok self0 "[]" "Conn 0" "Cursor 0" tr1_ok
      "''UPDATE t SET x = 1''" PNone False True _ None None True False]
  note bad = connections_released [of env_timeouts self0 "[]" _ _ tr_timeouts
      "''UPDATE t SET x = 1''" PNone False False
      "OperationalError ''Maximum retry attempts reached''" None None True False]
  have k: "cursor_close env_ok = None"
    "cursor_close env_cursor_close_fails = Some (DriverError ''cursor is busy'')"
    by (simp_all add: env_ok_def env_cursor_close_fails_def)
  from ok create_cursor_env_ok obtain acq body where
    a: "tr1_ok = [] @ acq" "closes acq = []" "closes body = []"
       "snd (perform_db_operation env_ok self0 ''UPDATE t SET x = 1'' PNone False False [])
          = tr1_ok @ body @ [EvCloseCursor (Cursor 0)]
              @ (if cursor_close env_ok = None then [EvCloseConn (Conn 0)] else [])"
    by blast
  have w1: "closes (snd (perform_db_operation env_ok self0 ''UPDATE t SET x = 1'' PNone
                           False False []))
              = [EvCloseCursor (Cursor 0), EvCloseConn (Conn 0)]"
    using a by (simp add: closes_append k) (simp add: closes_def)
  from cf create_cursor_env_cursor_close_fails obtain acq0 body0 where
    a0: "tr1_ok = [] @ acq0" "closes acq0 = []" "closes body0 = []"
       "snd (perform_db_operation env_cursor_close_fails self0 ''UPDATE t SET x = 1'' PNone
               False False [])
          = tr1_ok @ body0 @ [EvCloseCursor (Cursor 0)]
              @ (if cursor_close env_cursor_close_fails = None then [EvCloseConn (Conn 0)]
                 else [])"
    by blast
  have w0: "closes (snd (perform_db_operation env_cursor_close_fails self0 ''UPDATE t SET x = 1''
                           PNone False False []))
              = [EvCloseCursor (Cursor 0)]"
    using a0 by (simp add: closes_append k) (simp add: closes_def)
  from bad create_cursor_env_timeouts obtain acq' where
    b: "tr_timeouts = [] @ acq'"
       "closes (acq' @ [EvLogError (''Error performing query: ''
                  @ exn_str (OperationalError ''Maximum retry attempts reached''))]) = []"
       "perform_db_operation env_timeouts self0 ''UPDATE t SET x = 1'' PNone False False []
          = (Inr (Marker ''Error'' (''Error performing query: ''
                  @ exn_str (OperationalError ''Maximum retry attempts reached''))),
             tr_timeouts @ [EvLogError (''Error performing query: ''
                  @ exn_str (OperationalError ''Maximum retry attempts reached''))])"
    by blast
  have w2: "perform_db_operation env_timeouts self0 ''UPDATE t SET x = 1'' PNone False False []
     = (Inr (Marker ''Error'' ''Error performing query: Maximum retry attempts reached''),
        tr_timeouts @ [EvLogError ''Error performing query: Maximum retry attempts reached''])"
    using b(3) by simp
  have w3: "closes (snd (perform_db_operation env_timeouts self0 ''UPDATE t SET x = 1'' PNone
                           False False [])) = []"
    using b by simp
  have cm: "commit env_ok = None" by (simp add: env_ok_def)
  from ok' atomic_acquire_env_ok cm obtain acq'' body'' where
    c: "tr1_ok = [] @ acq''" "closes acq'' = []" "closes body'' = []"
       "snd (perform_atomic_db_operation env_ok self0 ''UPDATE t SET x = 1'' PNone False
               True False None None True [])
          = tr1_ok @ body'' @ (if True then [EvCloseCursor (Cursor 0)] else [])
              @ (if False \<and> (True \<longrightarrow> cursor_close env_ok = None)
                 then [EvCloseConn (Conn 0)] else [])"
    by blast
  have w4: "closes (snd (perform_atomic_db_operation env_ok self0 ''UPDATE t SET x = 1'' PNone
                           False True False None None True [])) = [EvCloseCursor (Cursor 0)]"
    using c by (simp add: closes_append) (simp add: closes_def)
  from w1 w0 w2 w3 w4 show ?thesis by blast
qed

text \<open>
  Claim C6 as stated fails in two places. \<^verbatim>\<open>perform_atomic_db_operation(query,
  close_conn=False)\<close> opens a connection through \<^verbatim>\<open>create_cursor\<close>, returns the bare
  \<^verbatim>\<open>"Success"\<close> without handing the connection back, and never closes it: the only close
  of the run is the cursor's. And in \<^verbatim>\<open>perform_db_operation\<close>, with a driver whose
  \<^verbatim>\<open>cursor.close()\<close> raises, the \<^verbatim>\<open>finally\<close> block is left before \<^verbatim>\<open>conn.close()\<close>: the
  connection that \<^verbatim>\<open>create_cursor\<close> opened is not released.
\<close>

theorem connection_left_open_counterexample:
  "connect env_ok 0 = Inr (Conn 0) \<and>
   perform_atomic_db_operation env_ok self0 ''UPDATE t SET x = 1'' PNone False True False
       None None True []
     = (Inr Success1,
        [EvNewApp ''client'' ''https://login.microsoftonline.com/tenant'' ''secret'',
         EvAcquireToken [''https://database.windows.net//.default''],
         EvConnect ''DRIVER={ODBC Driver 18 for SQL Server};SERVER=srv;DATABASE=db;ENCRYPT=NO''
           1256 [2, 0, 0, 0, 65, 0],
         EvCursor (Conn 0),
         EvExecute (Cursor 0) ''UPDATE t SET x = 1'',
         EvPrint ''Committing transaction'',
         EvCommit (Conn 0),
         EvCloseCursor (Cursor 0)]) \<and>
   closes (snd (perform_atomic_db_operation env_ok self0 ''UPDATE t SET x = 1'' PNone False
                  True False None None True [])) = [EvCloseCursor (Cursor 0)] \<and>
   connect env_cursor_close_fails 0 = Inr (Conn 0) \<and>
   perform_db_operation env_cursor_close_fails self0 ''SELECT id, name FROM t'' PNone True
       False []
     = (Inl (DriverError ''cursor is busy''),
        tr1_ok @ [EvExecute (Cursor 0) ''SELECT id, name FROM t'', EvFetchAll (Cursor 0),
                  EvDescription (Cursor 0), EvCloseCursor (Cursor 0)]) \<and>
   closes (snd (perform_db_operation env_cursor_close_fails self0 ''SELECT id, name FROM t''
                  PNone True False [])) = [EvCloseCursor (Cursor 0)]"
proof -
  have a: "connect env_ok 0 = Inr (Conn 0) \<and>
   perform_atomic_db_operation env_ok self0 ''UPDATE t SET x = 1'' PNone False True False
       None None True []
     = (Inr Success1,
        [EvNewApp ''client'' ''https://login.microsoftonline.com/tenant'' ''secret'',
         EvAcquireToken [''https://database.windows.net//.default''],
         EvConnect ''DRIVER={ODBC Driver 18 for SQL Server};SERVER=srv;DATABASE=db;ENCRYPT=NO''
           1256 [2, 0, 0, 0, 65, 0],
         EvCursor (Conn 0),
         EvExecute (Cursor 0) ''UPDATE t SET x = 1'',
         EvPrint ''Committing transaction'',
         EvCommit (Conn 0),
         EvCloseCursor (Cursor 0)]) \<and>
   closes (snd (perform_atomic_db_operation env_ok self0 ''UPDATE t SET x = 1'' PNone False
                  True False None None True [])) = [EvCloseCursor (Cursor 0)]"
    by (simp add: perform_atomic_env_ok query_event_def closes_def)
       (simp add: tr1_ok_def tr0_ok_def cs0_def env_ok_def)
  have b: "connect env_cursor_close_fails 0 = Inr (Conn 0)"
    by (simp add: env_cursor_close_fails_def env_ok_def)
  have c: "closes (snd (perform_db_operation env_cursor_close_fails self0
                          ''SELECT id, name FROM t'' PNone True False []))
             = [EvCloseCursor (Cursor 0)]"
    by (simp add: perform_db_operation_env_cursor_close_fails closes_def tr1_ok_def tr0_ok_def)
  from a b c perform_db_operation_env_cursor_close_fails show ?thesis by blast
qed

end
